theory Spec2Isabelle
  imports Complex_Main "HOL-Library.AList" "HOL-Library.Word"
begin

section \<open>Go values, maps, outcomes and the network trace\<close>

text \<open>
  The plugin is written against Go's dynamically typed \<^verbatim>\<open>interface{}\<close>: a request is a
  \<^verbatim>\<open>map[string]interface{}\<close> decoded from JSON, an SNMP variable carries an
  \<^verbatim>\<open>interface{}\<close> value, and the response is again such a map. \<open>go_value\<close> is the
  dynamic value: one constructor per dynamic type that occurs. A \<^verbatim>\<open>[]byte\<close> and a
  \<^verbatim>\<open>string\<close> are both byte sequences (\<open>char list\<close>, eight-bit characters). A JSON number
  is a \<^verbatim>\<open>float64\<close>, modelled by a real. A Go map is an association list with unique
  keys: \<open>map_index\<close> is \<^verbatim>\<open>m[k]\<close> (the zero value \<^verbatim>\<open>nil\<close> for a missing key) and
  \<open>map_store\<close> is \<^verbatim>\<open>m[k] = v\<close>.
\<close>

datatype go_value =
    VNil
  | VBool bool
  | VString string
  | VBytes string
  | VInt int
  | VUint nat
  | VUint32 "32 word"
  | VUint64 "64 word"
  | VFloat64 real
  | VInts "int list"
  | VMap "(string \<times> go_value) list"
  | VList "go_value list"

type_synonym go_map = "(string \<times> go_value) list"

definition map_index :: "go_map \<Rightarrow> string \<Rightarrow> go_value" where
  "map_index m k = (case map_of m k of None \<Rightarrow> VNil | Some v \<Rightarrow> v)"

definition map_store :: "go_map \<Rightarrow> string \<Rightarrow> go_value \<Rightarrow> go_map" where
  "map_store m k v = AList.update k v m"

text \<open>A lookup in a \<^verbatim>\<open>map[string]string\<close>: the empty string for a missing key.\<close>

definition str_index :: "(string \<times> string) list \<Rightarrow> string \<Rightarrow> string" where
  "str_index m k = (case map_of m k of None \<Rightarrow> [] | Some v \<Rightarrow> v)"

text \<open>
  A single-value type assertion \<^verbatim>\<open>x.(T)\<close> panics when the dynamic type is not \<^verbatim>\<open>T\<close>;
  the two-value form \<^verbatim>\<open>v, ok := x.(T)\<close> does not. Both are built from these partial
  projections.
\<close>

fun as_string :: "go_value \<Rightarrow> string option" where
  "as_string (VString s) = Some s"
| "as_string _ = None"

fun as_bytes :: "go_value \<Rightarrow> string option" where
  "as_bytes (VBytes b) = Some b"
| "as_bytes _ = None"

fun as_float64 :: "go_value \<Rightarrow> real option" where
  "as_float64 (VFloat64 x) = Some x"
| "as_float64 _ = None"

fun as_uint32 :: "go_value \<Rightarrow> 32 word option" where
  "as_uint32 (VUint32 u) = Some u"
| "as_uint32 _ = None"

fun as_int :: "go_value \<Rightarrow> int option" where
  "as_int (VInt i) = Some i"
| "as_int _ = None"

text \<open>
  A call either returns or panics. A panic in a worker goroutine is not recovered anywhere
  in the repository, so it ends the process and no response is sent.
\<close>

datatype 'a outcome = Returned 'a | Panicked string

datatype snmp_version = Version1 | Version2c | Version3

record GoSNMP =
  Target :: string
  Port :: nat
  Community :: string
  Version :: snmp_version
  Timeout :: nat
  Retries :: nat

text \<open>
  The calls made on the device-protocol library, in the order they are made. A run of a
  function is the list of its calls together with its outcome.
\<close>

datatype net_call = NetConnect GoSNMP | NetGet "string list" | NetWalk string | NetClose

type_synonym 'a run = "net_call list \<times> 'a outcome"

definition ret :: "'a \<Rightarrow> 'a run" where
  "ret x = ([], Returned x)"

definition panic :: "string \<Rightarrow> 'a run" where
  "panic msg = ([], Panicked msg)"

definition seq :: "'a run \<Rightarrow> ('a \<Rightarrow> 'b run) \<Rightarrow> 'b run" where
  "seq m f =
     (case m of
        (cs, Panicked msg) \<Rightarrow> (cs, Panicked msg)
      | (cs, Returned x) \<Rightarrow> (case f x of (cs', r) \<Rightarrow> (cs @ cs', r)))"

text \<open>\<^verbatim>\<open>defer g.Conn.Close()\<close>: the close runs when the function leaves, also on a panic.\<close>

definition deferred_close :: "'a run \<Rightarrow> 'a run" where
  "deferred_close m = (case m of (cs, r) \<Rightarrow> (cs @ [NetClose], r))"

section \<open>The device-protocol library and the Go runtime\<close>

datatype asn1ber =
    Integer | OctetString | Null | ObjectIdentifier | IPAddress | Counter32 | Gauge32
  | TimeTicks | Opaque | Counter64 | NoSuchObject | NoSuchInstance | EndOfMibView

record SnmpPDU =
  Name :: string
  Type :: asn1ber
  Value :: go_value

text \<open>
  Everything the code does not decide is a field of \<open>world\<close>: what the one device that
  the job addresses answers to a connect, a batched get and a walk (the session \<open>g\<close> is
  recorded with the connect; the answers do not depend on it); the order in which a \<^verbatim>\<open>range\<close> over
  each OID table yields its keys (Go leaves it unspecified; for the interface table it is
  chosen anew in each call, here per interface index); the order in which the goroutines of
  the concurrent collector win the two mutexes; and the texts of two library renderings
  that the repository does not contain (\<^verbatim>\<open>fmt.Sprintf\<close> of a verb and a
  \<^verbatim>\<open>float64\<close>, slice or map, and the error of \<^verbatim>\<open>strconv.Atoi\<close> for an input). A walk hands the listed variables to the
  callback one by one and then reports the listed transport error, if any. The device is
  stateless: the same request gets the same answer.
\<close>

record world =
  connect_error :: "string option"
  get_reply :: "string list \<Rightarrow> string + SnmpPDU list"
  walk_reply :: "string \<Rightarrow> SnmpPDU list \<times> string option"
  range_SNMPOids :: "string list"
  range_InterfaceOids :: "int \<Rightarrow> string list"
  snmp_lock_order :: "int \<Rightarrow> int list"
  data_lock_order :: "int \<Rightarrow> int list"
  sprintf_other :: "string \<Rightarrow> go_value \<Rightarrow> string"
  atoi_error :: "string \<Rightarrow> string"

definition Connect :: "world \<Rightarrow> GoSNMP \<Rightarrow> string option run" where
  "Connect w g = ([NetConnect g], Returned (connect_error w))"

definition Get :: "world \<Rightarrow> GoSNMP \<Rightarrow> string list \<Rightarrow> (string + SnmpPDU list) run" where
  "Get w g oids = ([NetGet oids], Returned (get_reply w oids))"

text \<open>A \<^verbatim>\<open>range\<close> over a map visits every key once: the order is a permutation of the keys.\<close>

definition range_of :: "(string \<times> string) list \<Rightarrow> string list \<Rightarrow> bool" where
  "range_of table order = (distinct order \<and> set order = set (map fst table))"

section \<open>Library functions the code calls\<close>

subsection \<open>Decimal rendering: the verbs \<^verbatim>\<open>%d\<close> and \<^verbatim>\<open>%02d\<close>\<close>

definition digit_char :: "nat \<Rightarrow> char" where
  "digit_char n = ''0123456789'' ! n"

function show_nat :: "nat \<Rightarrow> string" where
  "show_nat n = (if n < 10 then [digit_char n] else show_nat (n div 10) @ [digit_char (n mod 10)])"
  by pat_completeness auto
termination
  by (relation "measure id") auto

declare show_nat.simps [simp del]

definition sprintf_d :: "int \<Rightarrow> string" where
  "sprintf_d i = (if i < 0 then CHR ''-'' # show_nat (nat (- i)) else show_nat (nat i))"

definition sprintf_02d :: "nat \<Rightarrow> string" where
  "sprintf_02d n = (let s = show_nat n in replicate (2 - length s) CHR ''0'' @ s)"

subsection \<open>\<^verbatim>\<open>strconv.Atoi\<close>\<close>

text \<open>
  An optional sign, then at least one decimal digit and nothing else; a value outside the
  64-bit \<^verbatim>\<open>int\<close> is an error. \<open>None\<close> is the error return.
\<close>

definition is_digit :: "char \<Rightarrow> bool" where
  "is_digit c = (48 \<le> (of_char c :: nat) \<and> (of_char c :: nat) \<le> 57)"

definition digits_value :: "string \<Rightarrow> nat" where
  "digits_value s = foldl (\<lambda>acc c. 10 * acc + (of_char c - 48)) 0 s"

definition parse_digits :: "string \<Rightarrow> nat option" where
  "parse_digits s = (if s \<noteq> [] \<and> list_all is_digit s then Some (digits_value s) else None)"

definition in_int64 :: "int \<Rightarrow> bool" where
  "in_int64 i = (- (2 ^ 63) \<le> i \<and> i < 2 ^ 63)"

fun Atoi :: "string \<Rightarrow> int option" where
  "Atoi [] = None"
| "Atoi (c # cs) =
     (let r = (if c = CHR ''-'' then map_option (\<lambda>n. - int n) (parse_digits cs)
               else if c = CHR ''+'' then map_option int (parse_digits cs)
               else map_option int (parse_digits (c # cs)))
      in case r of None \<Rightarrow> None | Some i \<Rightarrow> if in_int64 i then Some i else None)"

subsection \<open>\<^verbatim>\<open>strings.Split(s, ".")\<close>, \<^verbatim>\<open>strings.TrimSpace\<close>, \<^verbatim>\<open>strings.ToUpper\<close>, \<^verbatim>\<open>hex.EncodeToString\<close>\<close>

fun Split_dot :: "string \<Rightarrow> string list" where
  "Split_dot [] = [[]]"
| "Split_dot (c # cs) =
     (if c = CHR ''.'' then [] # Split_dot cs
      else (case Split_dot cs of [] \<Rightarrow> [[c]] | p # ps \<Rightarrow> (c # p) # ps))"

text \<open>
  \<^verbatim>\<open>TrimSpace\<close> removes the leading and the trailing white space of Unicode from a string of
  bytes in UTF-8: the six ASCII bytes (tab, line feed, vertical tab, form feed, carriage
  return, blank), the two-byte runes U+0085 and U+00A0, and the three-byte runes U+1680,
  U+2000 to U+200A, U+2028, U+2029, U+202F, U+205F and U+3000. A byte that starts no such
  rune ends the trimming, also when it is no valid UTF-8. The trailing side is trimmed on
  the reversed string, where the bytes of a rune come last byte first.
\<close>

definition ascii_space :: "char \<Rightarrow> bool" where
  "ascii_space c = ((of_char c :: nat) \<in> set [9, 10, 11, 12, 13, 32])"

definition space2 :: "char \<Rightarrow> char \<Rightarrow> bool" where
  "space2 a b = ((of_char a :: nat) = 194 \<and> (of_char b :: nat) \<in> set [133, 160])"

definition space3 :: "char \<Rightarrow> char \<Rightarrow> char \<Rightarrow> bool" where
  "space3 a b c =
     (let x = (of_char a :: nat); y = (of_char b :: nat); z = (of_char c :: nat)
      in (x = 225 \<and> y = 154 \<and> z = 128)
       \<or> (x = 226 \<and> y = 128 \<and> ((128 \<le> z \<and> z \<le> 138) \<or> z \<in> set [168, 169, 175]))
       \<or> (x = 226 \<and> y = 129 \<and> z = 159)
       \<or> (x = 227 \<and> y = 128 \<and> z = 128))"

fun trim_runes :: "(char \<Rightarrow> char \<Rightarrow> bool) \<Rightarrow> (char \<Rightarrow> char \<Rightarrow> char \<Rightarrow> bool) \<Rightarrow> string \<Rightarrow> string" where
  "trim_runes two three (a # b # c # rest) =
     (if ascii_space a then trim_runes two three (b # c # rest)
      else if two a b then trim_runes two three (c # rest)
      else if three a b c then trim_runes two three rest
      else a # b # c # rest)"
| "trim_runes two three [a, b] =
     (if ascii_space a then trim_runes two three [b]
      else if two a b then []
      else [a, b])"
| "trim_runes two three [a] = (if ascii_space a then [] else [a])"
| "trim_runes two three [] = []"

definition TrimSpace :: "string \<Rightarrow> string" where
  "TrimSpace s =
     rev (trim_runes (\<lambda>b a. space2 a b) (\<lambda>c b a. space3 a b c)
            (rev (trim_runes space2 space3 s)))"

definition upper_char :: "char \<Rightarrow> char" where
  "upper_char c =
     (case map_of (zip ''abcdefghijklmnopqrstuvwxyz'' ''ABCDEFGHIJKLMNOPQRSTUVWXYZ'') c of
        None \<Rightarrow> c
      | Some u \<Rightarrow> u)"

definition ToUpper :: "string \<Rightarrow> string" where
  "ToUpper s = map upper_char s"

definition hex_char :: "nat \<Rightarrow> char" where
  "hex_char n = ''0123456789abcdef'' ! n"

definition EncodeToString :: "string \<Rightarrow> string" where
  "EncodeToString bs =
     concat (map (\<lambda>b. [hex_char ((of_char b :: nat) div 16), hex_char ((of_char b :: nat) mod 16)]) bs)"

text \<open>The slice expression \<^verbatim>\<open>s[i:j]\<close>, for bounds inside the string.\<close>

definition slice :: "string \<Rightarrow> nat \<Rightarrow> nat \<Rightarrow> string" where
  "slice s i j = take (j - i) (drop i s)"


section \<open>Constants and OID tables\<close>

text \<open>
  The request and response keys and the fixed texts (the constant blocks of the second
  file of \<^verbatim>\<open>src/unnamed/part_003\<close> and of \<^verbatim>\<open>src/unnamed/part_004\<close>). The keys
  \<^verbatim>\<open>Community\<close>, \<^verbatim>\<open>Version\<close> and \<^verbatim>\<open>Port\<close> carry the suffix \<open>_key\<close>, the text
  \<^verbatim>\<open>Nil\<close> the suffix \<open>_text\<close>: the plain names are the session's fields and the empty list.
  \<^verbatim>\<open>FieldMissing\<close> is declared in the third file of \<^verbatim>\<open>part_003\<close> only.
\<close>

abbreviation IP :: string where "IP \<equiv> ''ip''"
abbreviation PluginType :: string where "PluginType \<equiv> ''pluginType''"
abbreviation RequestID :: string where "RequestID \<equiv> ''requestId''"
abbreviation Community_key :: string where "Community_key \<equiv> ''community''"
abbreviation Version_key :: string where "Version_key \<equiv> ''version''"
abbreviation Port_key :: string where "Port_key \<equiv> ''port''"
abbreviation Status :: string where "Status \<equiv> ''status''"
abbreviation Data :: string where "Data \<equiv> ''data''"
abbreviation SystemName :: string where "SystemName \<equiv> ''systemName''"
abbreviation SNMPPlugin :: string where "SNMPPlugin \<equiv> ''snmp''"
abbreviation Fail :: string where "Fail \<equiv> ''fail''"
abbreviation Success :: string where "Success \<equiv> ''success''"
abbreviation FieldMissing :: string where "FieldMissing \<equiv> ''field missing''"
abbreviation UnsupportedPlugin :: string where "UnsupportedPlugin \<equiv> ''unsupported plugin type''"
abbreviation UnsupportedSNMP :: string where "UnsupportedSNMP \<equiv> ''unsupported SNMP version''"
abbreviation SNMPConnectFail :: string where "SNMPConnectFail \<equiv> ''SNMP connection failed''"
abbreviation SNMPGetFail :: string where "SNMPGetFail \<equiv> ''SNMP get request failed''"
abbreviation SystemNameNotFound :: string where "SystemNameNotFound \<equiv> ''system name not found''"
abbreviation SysemNameOid :: string where "SysemNameOid \<equiv> ''1.3.6.1.2.1.1.5.0''"
abbreviation Errors :: string where "Errors \<equiv> ''error''"

abbreviation systemName :: string where "systemName \<equiv> ''system.name''"
abbreviation systemDescription :: string where "systemDescription \<equiv> ''system.description''"
abbreviation systemLocation :: string where "systemLocation \<equiv> ''system.location''"
abbreviation systemObjectID :: string where "systemObjectID \<equiv> ''system.objectId''"
abbreviation systemUptime :: string where "systemUptime \<equiv> ''system.uptime''"
abbreviation systemInterfaces :: string where "systemInterfaces \<equiv> ''system.interfaces''"
abbreviation interfaces :: string where "interfaces \<equiv> ''interfaces''"
abbreviation Interface_Error :: string where "Interface_Error \<equiv> ''interfaces.error''"
abbreviation Index :: string where "Index \<equiv> ''index''"
abbreviation physicalAddress :: string where "physicalAddress \<equiv> ''interface.physical.address''"
abbreviation Message :: string where "Message \<equiv> ''message''"
abbreviation OID_NOT_FOUND :: string where "OID_NOT_FOUND \<equiv> ''no OIDs found in util.SNMPOids''"
abbreviation Nil_text :: string where "Nil_text \<equiv> ''nil''"

text \<open>\<^verbatim>\<open>util.SNMPOids\<close> and \<^verbatim>\<open>util.InterfaceOids\<close> (\<^verbatim>\<open>src/src/util/metriccontext.go\<close>).\<close>

definition SNMPOids :: "(string \<times> string) list" where
  "SNMPOids =
    [(''1.3.6.1.2.1.1.5.0'', ''system.name''),
     (''1.3.6.1.2.1.1.1.0'', ''system.description''),
     (''1.3.6.1.2.1.1.6.0'', ''system.location''),
     (''1.3.6.1.2.1.1.2.0'', ''system.objectId''),
     (''1.3.6.1.2.1.1.3.0'', ''system.uptime''),
     (''1.3.6.1.2.1.2.1.0'', ''system.interfaces'')]"

definition InterfaceOids :: "(string \<times> string) list" where
  "InterfaceOids =
    [(''1.3.6.1.2.1.2.2.1.1'', ''interface.index''),
     (''1.3.6.1.2.1.31.1.1.1.1'', ''interface.name''),
     (''1.3.6.1.2.1.31.1.1.1.18'', ''interface.alias''),
     (''1.3.6.1.2.1.2.2.1.8'', ''interface.operational.status''),
     (''1.3.6.1.2.1.2.2.1.7'', ''interface.admin.status''),
     (''1.3.6.1.2.1.2.2.1.2'', ''interface.description''),
     (''1.3.6.1.2.1.2.2.1.20'', ''interface.sent.error.packets''),
     (''1.3.6.1.2.1.2.2.1.14'', ''interface.received.error.packets''),
     (''1.3.6.1.2.1.2.2.1.16'', ''interface.sent.octets''),
     (''1.3.6.1.2.1.2.2.1.10'', ''interface.received.octets''),
     (''1.3.6.1.2.1.2.2.1.5'', ''interface.speed''),
     (''1.3.6.1.2.1.2.2.1.6'', ''interface.physical.address''),
     (''1.3.6.1.2.1.2.2.1.13'', ''interface.discard.packets''),
     (''1.3.6.1.2.1.2.2.1.11'', ''interface.in.packets''),
     (''1.3.6.1.2.1.2.2.1.17'', ''interface.out.packets'')]"

section \<open>The polling pipeline of \<^verbatim>\<open>src/unnamed/part_004\<close>\<close>

subsection \<open>\<^verbatim>\<open>ValidateRequest\<close> (second file of \<^verbatim>\<open>src/unnamed/part_003\<close>)\<close>

text \<open>
  The conversion \<^verbatim>\<open>int(v)\<close> of a \<^verbatim>\<open>float64\<close> truncates towards zero; the result is a
  64-bit \<^verbatim>\<open>int\<close>. For a value whose truncation is outside that range the language leaves
  the result to the implementation: the definition gives the result of the amd64
  conversion, the least \<^verbatim>\<open>int\<close>. The function stores the converted port into the request,
  so it returns the request with its verdict.
\<close>

definition float_to_int :: "real \<Rightarrow> int" where
  "float_to_int x =
     (let t = (if 0 \<le> x then \<lfloor>x\<rfloor> else \<lceil>x\<rceil>)
      in if in_int64 t then t else - (2 ^ 63))"

fun validate_fields :: "string list \<Rightarrow> go_map \<Rightarrow> bool \<times> go_map" where
  "validate_fields [] reqData = (True, reqData)"
| "validate_fields (field # rest) reqData =
     (case map_of reqData field of
        None \<Rightarrow> (False, reqData)
      | Some v \<Rightarrow>
          if field = Port_key then
            validate_fields rest
              (case as_float64 v of
                 Some x \<Rightarrow> map_store reqData field (VInt (float_to_int x))
               | None \<Rightarrow> reqData)
          else
            (case as_string v of
               None \<Rightarrow> (False, reqData)
             | Some s \<Rightarrow> if TrimSpace s = [] then (False, reqData) else validate_fields rest reqData))"

definition ValidateRequest :: "go_map \<Rightarrow> bool \<times> go_map" where
  "ValidateRequest reqData = validate_fields [IP, PluginType, RequestID, Port_key] reqData"

subsection \<open>\<^verbatim>\<open>fetchSNMPSystemData\<close>\<close>

text \<open>
  One batched get of the keys of \<^verbatim>\<open>util.SNMPOids\<close> in the order the \<^verbatim>\<open>range\<close> gave
  them; the \<open>i\<close>-th variable of the answer is stored under the field name of
  \<^verbatim>\<open>oidArray[i]\<close>. Reading \<^verbatim>\<open>oidArray[i]\<close> beyond the array panics.
\<close>

definition scalar_value :: "go_value \<Rightarrow> go_value" where
  "scalar_value v =
     (if v = VNil then VString Nil_text
      else (case as_bytes v of Some bytes \<Rightarrow> VString bytes | None \<Rightarrow> v))"

fun system_variables :: "string list \<Rightarrow> nat \<Rightarrow> SnmpPDU list \<Rightarrow> go_map \<Rightarrow> go_map outcome" where
  "system_variables oidArray i [] snmpData = Returned snmpData"
| "system_variables oidArray i (variable # rest) snmpData =
     (if length oidArray \<le> i then Panicked ''index out of range''
      else system_variables oidArray (Suc i) rest
             (map_store snmpData (str_index SNMPOids (oidArray ! i)) (scalar_value (Value variable))))"

definition lift :: "'a outcome \<Rightarrow> 'a run" where
  "lift r = ([], r)"

definition fetchSNMPSystemData :: "world \<Rightarrow> GoSNMP \<Rightarrow> (string + go_map) run" where
  "fetchSNMPSystemData w g =
     (let oidArray = range_SNMPOids w in
      if length oidArray = 0 then ret (Inl OID_NOT_FOUND)
      else
        seq (Get w g oidArray) (\<lambda>reply.
          case reply of
            Inl err \<Rightarrow> ret (Inl err)
          | Inr variables \<Rightarrow>
              seq (lift (system_variables oidArray 0 variables [])) (\<lambda>snmpData. ret (Inr snmpData))))"

subsection \<open>\<^verbatim>\<open>getInterfaceIndexes\<close>\<close>

fun walk_pdus :: "('s \<Rightarrow> SnmpPDU \<Rightarrow> string + 's) \<Rightarrow> SnmpPDU list \<Rightarrow> 's \<Rightarrow> string + 's" where
  "walk_pdus walkFn [] s = Inr s"
| "walk_pdus walkFn (pdu # rest) s =
     (case walkFn s pdu of Inl err \<Rightarrow> Inl err | Inr s' \<Rightarrow> walk_pdus walkFn rest s')"

text \<open>
  \<^verbatim>\<open>g.Walk(rootOid, walkFn)\<close>: the callback sees each variable; its first error ends the
  walk and is the walk's error. \<open>s\<close> is the variable the closure captures.
\<close>

definition Walk ::
  "world \<Rightarrow> GoSNMP \<Rightarrow> string \<Rightarrow> ('s \<Rightarrow> SnmpPDU \<Rightarrow> string + 's) \<Rightarrow> 's \<Rightarrow> (string + 's) run" where
  "Walk w g rootOid walkFn s =
     ([NetWalk rootOid],
      Returned
        (case walk_reply w rootOid of
           (pdus, transport) \<Rightarrow>
             (case walk_pdus walkFn pdus s of
                Inl err \<Rightarrow> Inl err
              | Inr s' \<Rightarrow> (case transport of Some err \<Rightarrow> Inl err | None \<Rightarrow> Inr s'))))"

definition index_of_pdu :: "world \<Rightarrow> int list \<Rightarrow> SnmpPDU \<Rightarrow> string + int list" where
  "index_of_pdu w indexes pdu =
     (let oidParts = Split_dot (Name pdu) in
      if length oidParts = 0 then Inl (''invalid OID: '' @ Name pdu)
      else
        (let oidSuffix = oidParts ! (length oidParts - 1) in
         case Atoi oidSuffix of
           None \<Rightarrow> Inl (''failed to parse index: '' @ atoi_error w oidSuffix)
         | Some index \<Rightarrow> Inr (indexes @ [index])))"

definition getInterfaceIndexes :: "world \<Rightarrow> GoSNMP \<Rightarrow> (string + int list) run" where
  "getInterfaceIndexes w g =
     seq (Walk w g ''.1.3.6.1.2.1.31.1.1.1.1'' (index_of_pdu w) []) (\<lambda>r.
       case r of
         Inl err \<Rightarrow> ret (Inl (''SNMP walk failed: '' @ err))
       | Inr indexes \<Rightarrow> ret (Inr indexes))"

subsection \<open>\<^verbatim>\<open>getInterface\<close> and \<^verbatim>\<open>getInterfaces\<close>\<close>

definition format_mac :: "string \<Rightarrow> string" where
  "format_mac bytes =
     (let mac = EncodeToString bytes;
          formattedMac = ToUpper mac
      in if 12 \<le> length formattedMac then
           slice formattedMac 0 2 @ '':'' @ slice formattedMac 2 4 @ '':'' @
           slice formattedMac 4 6 @ '':'' @ slice formattedMac 6 8 @ '':'' @
           slice formattedMac 8 10 @ '':'' @ slice formattedMac 10 12
         else formattedMac)"

text \<open>
  The loop over the answer's variables: a \<^verbatim>\<open>nil\<close> value is skipped before
  \<^verbatim>\<open>fields[k]\<close> is read; otherwise \<^verbatim>\<open>fields[k]\<close> beyond the slice panics
  (\<open>fieldNames\<close> is the source's \<^verbatim>\<open>fields\<close>). The decoding
  of the physical address is the one place where the variants differ, so it is a
  parameter.
\<close>

fun interface_variables ::
  "(string \<Rightarrow> string) \<Rightarrow> string \<Rightarrow> string list \<Rightarrow> nat \<Rightarrow> SnmpPDU list \<Rightarrow> go_map \<Rightarrow> go_map outcome" where
  "interface_variables mac_text mac_field fieldNames k [] interfaceData = Returned interfaceData"
| "interface_variables mac_text mac_field fieldNames k (variable # rest) interfaceData =
     (if Value variable = VNil then interface_variables mac_text mac_field fieldNames (Suc k) rest interfaceData
      else if length fieldNames \<le> k then Panicked ''index out of range''
      else
        (let field = fieldNames ! k;
             v = (case as_bytes (Value variable) of
                    Some bytes \<Rightarrow> if field = mac_field then VString (mac_text bytes) else VString bytes
                  | None \<Rightarrow> Value variable)
         in interface_variables mac_text mac_field fieldNames (Suc k) rest (map_store interfaceData field v)))"

text \<open>
  The OIDs of one interface: every key of the interface table, in the order of the
  \<^verbatim>\<open>range\<close>, with the index as its last arc.
\<close>

definition interface_oids :: "world \<Rightarrow> int \<Rightarrow> string list" where
  "interface_oids w index = map (\<lambda>oid. oid @ ''.'' @ sprintf_d index) (range_InterfaceOids w index)"

definition getInterface :: "world \<Rightarrow> int \<Rightarrow> GoSNMP \<Rightarrow> (go_map \<times> string option) run" where
  "getInterface w index g =
     (let interfaceData = map_store [] Index (VString (sprintf_d index));
          oids = interface_oids w index;
          fieldNames = map (str_index InterfaceOids) (range_InterfaceOids w index)
      in seq (Get w g oids) (\<lambda>reply.
           case reply of
             Inl err \<Rightarrow>
               ret (map_store interfaceData Interface_Error (VString (''SNMP get failed: '' @ err)), Some err)
           | Inr variables \<Rightarrow>
               seq (lift (interface_variables format_mac physicalAddress fieldNames 0 variables interfaceData))
                 (\<lambda>d. ret (d, None))))"

definition after :: "net_call list \<Rightarrow> 'a run \<Rightarrow> 'a run" where
  "after cs m = (case m of (cs', r) \<Rightarrow> (cs @ cs', r))"

text \<open>
  The loop of \<^verbatim>\<open>getInterfaces\<close>: an interface whose fetch fails is logged and skipped
  (\<^verbatim>\<open>continue\<close>), every other record is appended. The function's error is always
  \<^verbatim>\<open>nil\<close>.
\<close>

fun getInterfaces_loop :: "world \<Rightarrow> GoSNMP \<Rightarrow> int list \<Rightarrow> go_value list \<Rightarrow> go_value list run" where
  "getInterfaces_loop w g [] interfacesData = ret interfacesData"
| "getInterfaces_loop w g (index # rest) interfacesData =
     (case getInterface w index g of
        (cs, Panicked msg) \<Rightarrow> (cs, Panicked msg)
      | (cs, Returned (d, err)) \<Rightarrow>
          after cs
            (getInterfaces_loop w g rest
               (case err of Some e \<Rightarrow> interfacesData | None \<Rightarrow> interfacesData @ [VMap d])))"

definition getInterfaces :: "world \<Rightarrow> GoSNMP \<Rightarrow> int list \<Rightarrow> (go_value list \<times> string option) run" where
  "getInterfaces w g indexes =
     seq (getInterfaces_loop w g indexes []) (\<lambda>interfacesData. ret (interfacesData, None))"

subsection \<open>\<^verbatim>\<open>FetchSNMPData\<close>\<close>

text \<open>The uptime block: ticks of 1/100 s, in unsigned 32-bit arithmetic.\<close>

definition uptime_text :: "32 word \<Rightarrow> string" where
  "uptime_text uptime =
     (let uptimeSeconds = uptime div 100;
          days = uptimeSeconds div (24 * 3600);
          uptimeSeconds = uptimeSeconds mod (24 * 3600);
          hours = uptimeSeconds div 3600;
          uptimeSeconds = uptimeSeconds mod 3600;
          minutes = uptimeSeconds div 60;
          seconds = uptimeSeconds mod 60
      in ''Uptime: '' @ show_nat (unat days) @ '' days, '' @ sprintf_02d (unat hours) @ '' hours, '' @
         sprintf_02d (unat minutes) @ '' minutes, '' @ sprintf_02d (unat seconds) @ '' seconds'')"

definition parse_version :: "string \<Rightarrow> snmp_version option" where
  "parse_version version =
     (if version = ''1'' then Some Version1
      else if version = ''2'' \<or> version = ''2c'' then Some Version2c
      else if version = ''3'' then Some Version3
      else None)"

definition fail_with :: "go_map \<Rightarrow> string \<Rightarrow> go_map" where
  "fail_with reqData msg = map_store (map_store reqData Errors (VString msg)) Status (VString Fail)"

definition system_data :: "go_map \<Rightarrow> go_map" where
  "system_data systemData =
     (let data = [(systemName, map_index systemData systemName),
                  (systemDescription, map_index systemData systemDescription),
                  (systemLocation, map_index systemData systemLocation),
                  (systemObjectID, map_index systemData systemObjectID)]
      in case as_uint32 (map_index systemData systemUptime) of
           Some uptime \<Rightarrow> map_store data systemUptime (VString (uptime_text uptime))
         | None \<Rightarrow> data)"

definition interface_data :: "world \<Rightarrow> GoSNMP \<Rightarrow> go_map \<Rightarrow> go_map run" where
  "interface_data w g data =
     seq (getInterfaceIndexes w g) (\<lambda>r.
       case r of
         Inl err \<Rightarrow>
           ret (map_store
                  (map_store data Interface_Error (VString (''Error fetching interface indexes: '' @ err)))
                  systemInterfaces (VInt 0))
       | Inr indexes \<Rightarrow>
           (let data = map_store data systemInterfaces (VInt (int (length indexes))) in
            seq (getInterfaces w g indexes) (\<lambda>(interfacesData, err).
              case err of
                Some e \<Rightarrow>
                  ret (map_store data Interface_Error (VString (''Error fetching interface data: '' @ e)))
              | None \<Rightarrow> ret (map_store data interfaces (VList interfacesData)))))"

definition FetchSNMPData :: "world \<Rightarrow> go_map \<Rightarrow> go_map run" where
  "FetchSNMPData w request =
     (case ValidateRequest request of
        (False, reqData) \<Rightarrow> ret (fail_with reqData FieldMissing)
      | (True, reqData) \<Rightarrow>
     (case as_string (map_index reqData IP) of
        None \<Rightarrow> panic ''interface conversion: ip is not a string''
      | Some ip \<Rightarrow>
     (case as_string (map_index reqData Community_key) of
        None \<Rightarrow> panic ''interface conversion: community is not a string''
      | Some community \<Rightarrow>
     (case as_string (map_index reqData Version_key) of
        None \<Rightarrow> panic ''interface conversion: version is not a string''
      | Some version \<Rightarrow>
     (case parse_version version of
        None \<Rightarrow> ret (fail_with reqData UnsupportedSNMP)
      | Some v \<Rightarrow>
     (let g = \<lparr>Target = ip, Port = 161, Community = community, Version = v, Timeout = 500, Retries = 1\<rparr> in
      seq (Connect w g) (\<lambda>err.
        case err of
          Some e \<Rightarrow>
            ret (map_store
                   (map_store reqData Data (VMap [(Errors, VString SNMPConnectFail), (Message, VString e)]))
                   Status (VString Fail))
        | None \<Rightarrow>
            deferred_close
              (seq (fetchSNMPSystemData w g) (\<lambda>r.
                 case r of
                   Inl e \<Rightarrow>
                     ret (map_store
                            (map_store reqData Data (VMap [(Errors, VString SNMPConnectFail), (Message, VString e)]))
                            Status (VString Success))
                 | Inr systemData \<Rightarrow>
                     seq (interface_data w g (system_data systemData)) (\<lambda>data.
                       ret (map_store (map_store reqData Data (VMap data)) Status (VString Success))))))))))))"


section \<open>The polling pipeline of \<^verbatim>\<open>src/unnamed/part_005\<close>\<close>

text \<open>
  An earlier pipeline on the request map. It calls \<^verbatim>\<open>ValidateRequest\<close> of the package's
  discovery file; the version of that file with the same idiom
  (\<^verbatim>\<open>if ValidateRequest(reqData) { ... FieldMissing ... }\<close>) is the third file of
  \<^verbatim>\<open>src/unnamed/part_003\<close>, where the request id is the key \<^verbatim>\<open>requestID\<close>. Its
  \<^verbatim>\<open>getInterface\<close> and \<^verbatim>\<open>getInterfaces\<close> are, up to the names of three constants, those
  of \<^verbatim>\<open>src/src/plugin/snmp/polling.go\<close>.
  (\<^verbatim>\<open>FetchSNMPData\<close> of that file defers \<^verbatim>\<open>g.Conn.Close()\<close> before it calls \<^verbatim>\<open>g.Connect()\<close>;
  it is not embedded here.)
\<close>

definition ValidateRequest_3 :: "go_map \<Rightarrow> bool" where
  "ValidateRequest_3 reqData =
     (let hasMissingFields =
            fold (\<lambda>field missing.
                    case map_of reqData field of
                      None \<Rightarrow> True
                    | Some v \<Rightarrow> if v = VString [] then True else missing)
              [IP, PluginType, ''requestID''] False
      in \<not> hasMissingFields)"

fun mac_pairs :: "string \<Rightarrow> string" where
  "mac_pairs (a # b # rest) = ToUpper [a, b] @ '' '' @ mac_pairs rest"
| "mac_pairs rest = []"

definition format_mac_part5 :: "string \<Rightarrow> string" where
  "format_mac_part5 bytes = TrimSpace (mac_pairs (EncodeToString bytes))"

definition getInterface_part5 :: "world \<Rightarrow> int \<Rightarrow> GoSNMP \<Rightarrow> (go_map \<times> string option) run" where
  "getInterface_part5 w i g =
     (let interfaceData = map_store [] Index (VString (sprintf_d i));
          oids = interface_oids w i;
          fieldNames = map (str_index InterfaceOids) (range_InterfaceOids w i)
      in seq (Get w g oids) (\<lambda>reply.
           case reply of
             Inl err \<Rightarrow>
               ret (map_store interfaceData Interface_Error (VString (''Failed to fetch data: '' @ err)), Some err)
           | Inr variables \<Rightarrow>
               seq (lift (interface_variables format_mac_part5 physicalAddress fieldNames 0 variables interfaceData))
                 (\<lambda>d. ret (d, None))))"

text \<open>The loop over \<^verbatim>\<open>1..numInterfaces\<close>: the first failing fetch ends it with \<^verbatim>\<open>nil, err\<close>.\<close>

fun getInterfaces_part5_loop ::
  "world \<Rightarrow> GoSNMP \<Rightarrow> int list \<Rightarrow> go_value list \<Rightarrow> (go_value list \<times> string option) run" where
  "getInterfaces_part5_loop w g [] interfacesData = ret (interfacesData, None)"
| "getInterfaces_part5_loop w g (i # rest) interfacesData =
     (case getInterface_part5 w i g of
        (cs, Panicked msg) \<Rightarrow> (cs, Panicked msg)
      | (cs, Returned (d, err)) \<Rightarrow>
          (case err of
             Some e \<Rightarrow> (cs, Returned ([], Some e))
           | None \<Rightarrow> after cs (getInterfaces_part5_loop w g rest (interfacesData @ [VMap d]))))"

definition getInterfaces_part5 :: "world \<Rightarrow> GoSNMP \<Rightarrow> int \<Rightarrow> (go_value list \<times> string option) run" where
  "getInterfaces_part5 w g numInterfaces = getInterfaces_part5_loop w g [1..numInterfaces] []"

definition FetchSNMPData_part5 :: "world \<Rightarrow> go_map \<Rightarrow> go_map run" where
  "FetchSNMPData_part5 w reqData =
     (if ValidateRequest_3 reqData then ret (fail_with reqData FieldMissing)
      else
     (case as_string (map_index reqData IP) of
        None \<Rightarrow> panic ''interface conversion: ip is not a string''
      | Some ip \<Rightarrow>
     (case as_string (map_index reqData Community_key) of
        None \<Rightarrow> panic ''interface conversion: community is not a string''
      | Some community \<Rightarrow>
     (case (case as_string (map_index reqData Version_key) of
              None \<Rightarrow> None
            | Some version \<Rightarrow> parse_version version) of
        None \<Rightarrow> ret (fail_with reqData UnsupportedSNMP)
      | Some v \<Rightarrow>
     (let g = \<lparr>Target = ip, Port = 161, Community = community, Version = v, Timeout = 500, Retries = 0\<rparr> in
      seq (Connect w g) (\<lambda>err.
        case err of
          Some e \<Rightarrow>
            ret (map_store
                   (map_store reqData Data (VMap [(Errors, VString SNMPConnectFail), (Message, VString e)]))
                   Status (VString Fail))
        | None \<Rightarrow>
            deferred_close
              (seq (fetchSNMPSystemData w g) (\<lambda>r.
                 case r of
                   Inl e \<Rightarrow>
                     ret (map_store
                            (map_store reqData Data (VMap [(Errors, VString SNMPConnectFail), (Message, VString e)]))
                            Status (VString Success))
                 | Inr systemData \<Rightarrow>
                     (let numberOfInterface =
                            (case as_int (map_index systemData systemInterfaces) of Some n \<Rightarrow> n | None \<Rightarrow> 0);
                          data = map_store [] systemName (map_index systemData systemName);
                          data = map_store data systemDescription (map_index systemData systemDescription);
                          data = map_store data systemLocation (map_index systemData systemLocation);
                          data = map_store data systemObjectID (map_index systemData systemObjectID)
                      in case as_uint32 (map_index systemData systemUptime) of
                           None \<Rightarrow> panic ''interface conversion: system.uptime is not uint32''
                         | Some uptime \<Rightarrow>
                             (let data = map_store data systemUptime (VString (uptime_text uptime));
                                  data = map_store data systemInterfaces (map_index systemData systemInterfaces)
                              in seq (if 0 < numberOfInterface then
                                        seq (getInterfaces_part5 w g numberOfInterface) (\<lambda>(interfacesData, err).
                                          case err of
                                            Some e \<Rightarrow>
                                              ret (map_store data Interface_Error
                                                     (VString (''Error fetching interface data: '' @ e)))
                                          | None \<Rightarrow> ret (map_store data interfaces (VList interfacesData)))
                                      else ret (map_store data interfaces (VList [])))
                                   (\<lambda>data.
                                      ret (map_store (map_store reqData Data (VMap data))
                                             Status (VString Success)))))))))))))"

section \<open>The concurrent pipeline of \<^verbatim>\<open>src/snmp/snmpfetcher.go\<close>\<close>

text \<open>
  The oldest pipeline takes the three strings, has no validation and no status, turns every
  value into a string, reads the interface count from the device and starts one goroutine
  per index \<^verbatim>\<open>1..N\<close>. \<^verbatim>\<open>config.SNMPOids\<close> is \<^verbatim>\<open>util.SNMPOids\<close>;
  \<^verbatim>\<open>config.InterfaceOids\<close> has the same keys as \<^verbatim>\<open>util.InterfaceOids\<close> and other field
  names.
\<close>

definition InterfaceOids_config :: "(string \<times> string) list" where
  "InterfaceOids_config =
    [(''1.3.6.1.2.1.2.2.1.1'', ''Index''),
     (''1.3.6.1.2.1.31.1.1.1.1'', ''Name''),
     (''1.3.6.1.2.1.31.1.1.1.18'', ''Alias''),
     (''1.3.6.1.2.1.2.2.1.8'', ''OperationalStatus''),
     (''1.3.6.1.2.1.2.2.1.7'', ''AdminStatus''),
     (''1.3.6.1.2.1.2.2.1.2'', ''Description''),
     (''1.3.6.1.2.1.2.2.1.20'', ''SentErrorPackets''),
     (''1.3.6.1.2.1.2.2.1.14'', ''ReceivedErrorPackets''),
     (''1.3.6.1.2.1.2.2.1.16'', ''SentOctets''),
     (''1.3.6.1.2.1.2.2.1.10'', ''ReceivedOctets''),
     (''1.3.6.1.2.1.2.2.1.5'', ''Speed''),
     (''1.3.6.1.2.1.2.2.1.6'', ''PhysicalAddress''),
     (''1.3.6.1.2.1.2.2.1.13'', ''DiscardPackets''),
     (''1.3.6.1.2.1.2.2.1.11'', ''InPackets''),
     (''1.3.6.1.2.1.2.2.1.17'', ''OutPackets'')]"

text \<open>\<^verbatim>\<open>fmt.Sprintf("%v", v)\<close>, for the scalar dynamic types.\<close>

definition sprintf_v :: "world \<Rightarrow> go_value \<Rightarrow> string" where
  "sprintf_v w v =
     (case v of
        VNil \<Rightarrow> ''<nil>''
      | VBool b \<Rightarrow> (if b then ''true'' else ''false'')
      | VString s \<Rightarrow> s
      | VInt i \<Rightarrow> sprintf_d i
      | VUint n \<Rightarrow> show_nat n
      | VUint32 u \<Rightarrow> show_nat (unat u)
      | VUint64 u \<Rightarrow> show_nat (unat u)
      | other \<Rightarrow> sprintf_other w ''%v'' other)"

text \<open>The type switch of \<^verbatim>\<open>FetchSNMPSystemData\<close>; \<^verbatim>\<open>byte(b)\<close> keeps the low eight bits.\<close>

definition system_string :: "world \<Rightarrow> go_value \<Rightarrow> string" where
  "system_string w v =
     (case v of
        VNil \<Rightarrow> ''nil''
      | VString s \<Rightarrow> s
      | VInt i \<Rightarrow> sprintf_d i
      | VUint n \<Rightarrow> show_nat n
      | VFloat64 x \<Rightarrow> sprintf_other w ''%f'' (VFloat64 x)
      | VBytes b \<Rightarrow> b
      | VInts bs \<Rightarrow> map char_of bs
      | other \<Rightarrow> sprintf_v w other)"

fun system_strings ::
  "world \<Rightarrow> string list \<Rightarrow> nat \<Rightarrow> SnmpPDU list \<Rightarrow> (string \<times> string) list \<Rightarrow> (string \<times> string) list outcome" where
  "system_strings w oidArray i [] snmpData = Returned snmpData"
| "system_strings w oidArray i (variable # rest) snmpData =
     (if length oidArray \<le> i then Panicked ''index out of range''
      else system_strings w oidArray (Suc i) rest
             (AList.update (str_index SNMPOids (oidArray ! i)) (system_string w (Value variable)) snmpData))"

definition FetchSNMPSystemData :: "world \<Rightarrow> GoSNMP \<Rightarrow> (string + (string \<times> string) list) run" where
  "FetchSNMPSystemData w g =
     (let oidArray = range_SNMPOids w in
      if length oidArray = 0 then ret (Inl ''no OIDs found in config.SNMPOids'')
      else
        seq (Get w g oidArray) (\<lambda>reply.
          case reply of
            Inl err \<Rightarrow> ret (Inl err)
          | Inr variables \<Rightarrow>
              seq (lift (system_strings w oidArray 0 variables [])) (\<lambda>snmpData. ret (Inr snmpData))))"

fun interface_strings ::
  "world \<Rightarrow> string list \<Rightarrow> nat \<Rightarrow> SnmpPDU list \<Rightarrow> go_map \<Rightarrow> go_map outcome" where
  "interface_strings w fieldNames k [] interfaceData = Returned interfaceData"
| "interface_strings w fieldNames k (variable # rest) interfaceData =
     (if Value variable = VNil then interface_strings w fieldNames (Suc k) rest interfaceData
      else if length fieldNames \<le> k then Panicked ''index out of range''
      else
        (let field = fieldNames ! k;
             v = (case as_bytes (Value variable) of
                    Some bytes \<Rightarrow> if field = ''PhysicalAddress'' then EncodeToString bytes else bytes
                  | None \<Rightarrow> sprintf_v w (Value variable))
         in interface_strings w fieldNames (Suc k) rest (map_store interfaceData field (VString v))))"

text \<open>
  One goroutine of the collector: what it appends to the shared slice. On a failed get it
  appends the record with the key \<^verbatim>\<open>Error\<close>.
\<close>

definition getInterface_fetcher :: "world \<Rightarrow> int \<Rightarrow> GoSNMP \<Rightarrow> go_map run" where
  "getInterface_fetcher w i g =
     (let interfaceData = map_store [] ''Index'' (VString (sprintf_d i));
          oids = interface_oids w i;
          fieldNames = map (str_index InterfaceOids_config) (range_InterfaceOids w i)
      in seq (Get w g oids) (\<lambda>reply.
           case reply of
             Inl err \<Rightarrow> ret (map_store interfaceData ''Error'' (VString (''Failed to fetch data : '' @ err)))
           | Inr variables \<Rightarrow> lift (interface_strings w fieldNames 0 variables interfaceData)))"

fun collect :: "'a outcome list \<Rightarrow> 'a list outcome" where
  "collect [] = Returned []"
| "collect (Panicked msg # rest) = Panicked msg"
| "collect (Returned x # rest) =
     (case collect rest of Panicked msg \<Rightarrow> Panicked msg | Returned xs \<Rightarrow> Returned (x # xs))"

text \<open>
  \<^verbatim>\<open>GetInterfaces\<close> starts the goroutines \<^verbatim>\<open>1..numInterfaces\<close> and waits for all. Each
  does its get under \<^verbatim>\<open>mutexForSnmp\<close> and its append under \<^verbatim>\<open>mutexForData\<close>, so the gets
  happen in the order the first mutex is won and the slice holds the records in the order
  the second is won; the scheduler chooses both orders, each a permutation of
  \<^verbatim>\<open>1..numInterfaces\<close>. A panic in a goroutine ends the process.
\<close>

definition schedule_of :: "int \<Rightarrow> int list \<Rightarrow> bool" where
  "schedule_of numInterfaces order = (distinct order \<and> set order = set [1..numInterfaces])"

definition GetInterfaces :: "world \<Rightarrow> GoSNMP \<Rightarrow> int \<Rightarrow> (go_value list \<times> string option) run" where
  "GetInterfaces w g numInterfaces =
     (concat (map (\<lambda>i. fst (getInterface_fetcher w i g)) (snmp_lock_order w numInterfaces)),
      case collect (map (\<lambda>i. snd (getInterface_fetcher w i g)) (data_lock_order w numInterfaces)) of
        Panicked msg \<Rightarrow> Panicked msg
      | Returned interfacesData \<Rightarrow> Returned (map VMap interfacesData, None))"

definition FetchSNMPData_fetcher :: "world \<Rightarrow> string \<Rightarrow> string \<Rightarrow> string \<Rightarrow> go_map run" where
  "FetchSNMPData_fetcher w ip community version =
     (let g = \<lparr>Target = ip, Port = 161, Community = community,
               Version = (case parse_version version of Some v \<Rightarrow> v | None \<Rightarrow> Version2c),
               Timeout = 2000, Retries = 2\<rparr>
      in seq (Connect w g) (\<lambda>err.
           case err of
             Some e \<Rightarrow> ret [(''error'', VString (''Error connecting to SNMP target: '' @ e))]
           | None \<Rightarrow>
               deferred_close
                 (seq (FetchSNMPSystemData w g) (\<lambda>r.
                    case r of
                      Inl e \<Rightarrow> ret [(''error'', VString (''Error fetching SNMP system data: '' @ e))]
                    | Inr systemData \<Rightarrow>
                        (let str = str_index systemData ''system.interfaces'';
                             numberOfInterface = (case Atoi str of Some n \<Rightarrow> n | None \<Rightarrow> 0);
                             data = map_store [] ''system.name'' (VString (str_index systemData ''system.name''));
                             data = map_store data ''system.description''
                                      (VString (str_index systemData ''system.description''));
                             data = map_store data ''system.location''
                                      (VString (str_index systemData ''system.location''));
                             data = map_store data ''system.objectId''
                                      (VString (str_index systemData ''system.objectId''));
                             data = map_store data ''system.uptime'' (VString (str_index systemData ''system.uptime''));
                             data = map_store data ''system.interfaces''
                                      (VString (str_index systemData ''system.interfaces''))
                         in if 0 < numberOfInterface then
                              seq (GetInterfaces w g numberOfInterface) (\<lambda>(interfacesData, err).
                                case err of
                                  Some e \<Rightarrow>
                                    ret (map_store data ''interfaces.error''
                                           (VString (''Error fetching interface data: '' @ e)))
                                | None \<Rightarrow> ret (map_store data ''interfaces'' (VList interfacesData)))
                            else ret (map_store data ''interfaces'' (VList [])))))))"

section \<open>Discovery\<close>

text \<open>
  The loop over the answer's variables, the same in every version: the first variable of
  type \<^verbatim>\<open>OctetString\<close> ends it, and its value is asserted to be a \<^verbatim>\<open>[]byte\<close>.
\<close>

fun first_octet_string :: "SnmpPDU list \<Rightarrow> string option outcome" where
  "first_octet_string [] = Returned None"
| "first_octet_string (variable # rest) =
     (if Type variable = OctetString then
        (case as_bytes (Value variable) of
           None \<Rightarrow> Panicked ''interface conversion: value is not []byte''
         | Some bytes \<Rightarrow> Returned (Some bytes))
      else first_octet_string rest)"

subsection \<open>\<^verbatim>\<open>Discovery(ip, community, version)\<close> of \<^verbatim>\<open>src/src/plugin/snmp/discovery.go\<close>\<close>

definition discovery_fail :: go_map where
  "discovery_fail = [(''status'', VString ''fail''), (''systemName'', VString [])]"

definition Discovery_args :: "world \<Rightarrow> string \<Rightarrow> string \<Rightarrow> string \<Rightarrow> go_map run" where
  "Discovery_args w ip community version =
     (let snmp = \<lparr>Target = ip, Port = 161, Community = community,
                  Version = (case parse_version version of Some v \<Rightarrow> v | None \<Rightarrow> Version2c),
                  Timeout = 2000, Retries = 3\<rparr>
      in seq (Connect w snmp) (\<lambda>err.
           case err of
             Some e \<Rightarrow> ret discovery_fail
           | None \<Rightarrow>
               deferred_close
                 (seq (Get w snmp [''1.3.6.1.2.1.1.5.0'']) (\<lambda>reply.
                    case reply of
                      Inl e \<Rightarrow> ret discovery_fail
                    | Inr variables \<Rightarrow>
                        seq (lift (first_octet_string variables)) (\<lambda>r.
                          case r of
                            Some bytes \<Rightarrow> ret [(''status'', VString ''success''), (''systemName'', VString bytes)]
                          | None \<Rightarrow> ret discovery_fail)))))"

subsection \<open>\<^verbatim>\<open>Discovery(reqData)\<close> of the second file of \<^verbatim>\<open>src/unnamed/part_003\<close>\<close>

text \<open>
  The conversion \<^verbatim>\<open>uint16(x)\<close> of a \<^verbatim>\<open>float64\<close> truncates towards zero. The compiler
  converts to a 32-bit integer and keeps the low 16 bits; for a value whose truncation is
  outside the 32-bit range the language leaves the result to the implementation, and the
  definition gives the result of the amd64 conversion, whose low 16 bits are zero.
\<close>

definition float_to_uint16 :: "real \<Rightarrow> nat" where
  "float_to_uint16 x =
     (let t = (if 0 \<le> x then \<lfloor>x\<rfloor> else \<lceil>x\<rceil>)
      in if - (2 ^ 31) \<le> t \<and> t < 2 ^ 31 then nat (t mod 65536) else 0)"

definition Discovery :: "world \<Rightarrow> go_map \<Rightarrow> go_map run" where
  "Discovery w reqData =
     (if map_index reqData PluginType \<noteq> VString SNMPPlugin then ret (fail_with reqData UnsupportedPlugin)
      else
     (case as_string (map_index reqData IP) of
        None \<Rightarrow> panic ''interface conversion: ip is not a string''
      | Some ip \<Rightarrow>
     (case as_float64 (map_index reqData Port_key) of
        None \<Rightarrow> panic ''interface conversion: port is not a float64''
      | Some port \<Rightarrow>
     (case as_string (map_index reqData Community_key) of
        None \<Rightarrow> panic ''interface conversion: community is not a string''
      | Some community \<Rightarrow>
     (case as_string (map_index reqData Version_key) of
        None \<Rightarrow> panic ''interface conversion: version is not a string''
      | Some version \<Rightarrow>
     (case parse_version version of
        None \<Rightarrow> ret (fail_with reqData UnsupportedSNMP)
      | Some v \<Rightarrow>
     (let snmp = \<lparr>Target = ip, Port = float_to_uint16 port, Community = community, Version = v,
                  Timeout = 500, Retries = 0\<rparr>
      in seq (Connect w snmp) (\<lambda>err.
           case err of
             Some e \<Rightarrow> ret (fail_with reqData SNMPConnectFail)
           | None \<Rightarrow>
               deferred_close
                 (seq (Get w snmp [SysemNameOid]) (\<lambda>reply.
                    case reply of
                      Inl e \<Rightarrow> ret (fail_with reqData SNMPGetFail)
                    | Inr variables \<Rightarrow>
                        seq (lift (first_octet_string variables)) (\<lambda>r.
                          case r of
                            Some bytes \<Rightarrow>
                              ret (map_store (map_store reqData Data (VMap [(SystemName, VString bytes)]))
                                     Status (VString Success))
                          | None \<Rightarrow> ret (fail_with reqData SystemNameNotFound))))))))))))"

section \<open>Properties of a world, and what a run produced\<close>

text \<open>
  Two properties of the answers to a get, on which the code relies. A device that answers
  no get with more variables than OIDs were asked: the code indexes the OID list by the
  position of the variable, and an answer that is longer makes it panic. The library hands
  on what the device sent, so this is a condition on the device. And a variable of type
  \<^verbatim>\<open>OctetString\<close> that carries a \<^verbatim>\<open>[]byte\<close>: the code asserts the type of the value; this
  is how the library decodes.
\<close>

definition bounded_replies :: "world \<Rightarrow> bool" where
  "bounded_replies w = (\<forall>oids variables. get_reply w oids = Inr variables \<longrightarrow> length variables \<le> length oids)"

definition typed_replies :: "world \<Rightarrow> bool" where
  "typed_replies w =
     (\<forall>oids variables. get_reply w oids = Inr variables \<longrightarrow>
        list_all (\<lambda>variable. Type variable \<noteq> OctetString \<or> as_bytes (Value variable) \<noteq> None) variables)"

definition fetch_ok :: "world \<Rightarrow> int \<Rightarrow> bool" where
  "fetch_ok w index = (case get_reply w (interface_oids w index) of Inl err \<Rightarrow> False | Inr variables \<Rightarrow> True)"

definition record_index :: "go_value \<Rightarrow> go_value" where
  "record_index r = (case r of VMap d \<Rightarrow> map_index d Index | other \<Rightarrow> VNil)"

definition calls :: "'a run \<Rightarrow> net_call list" where
  "calls r = fst r"

fun returned :: "'a run \<Rightarrow> 'a option" where
  "returned (cs, Returned x) = Some x"
| "returned (cs, Panicked msg) = None"

text \<open>A key of the response, and a key of the map under its \<^verbatim>\<open>data\<close>.\<close>

definition response_field :: "string \<Rightarrow> go_map run \<Rightarrow> go_value option" where
  "response_field k r = (case returned r of None \<Rightarrow> None | Some m \<Rightarrow> map_of m k)"

definition data_field :: "string \<Rightarrow> go_map run \<Rightarrow> go_value option" where
  "data_field k r =
     (case response_field Data r of
        Some (VMap d) \<Rightarrow> map_of d k
      | other \<Rightarrow> None)"

section \<open>A device for the examples\<close>

text \<open>
  A switch with five interfaces whose third interface does not answer. Its uptime value is
  a parameter. The request carries its id under both spellings of the key
  (\<^verbatim>\<open>requestId\<close>, \<^verbatim>\<open>requestID\<close>) that the versions of the discovery file use. The \<^verbatim>\<open>range\<close> over the system table starts with the uptime; the
  goroutines of the concurrent collector do their gets in ascending order and append in
  descending order.
\<close>

definition lab_answers :: "go_value \<Rightarrow> (string \<times> asn1ber \<times> go_value) list" where
  "lab_answers uptime =
    [(''1.3.6.1.2.1.1.5.0'', OctetString, VBytes ''core-sw1''),
     (''1.3.6.1.2.1.1.1.0'', OctetString, VBytes ''edge switch''),
     (''1.3.6.1.2.1.1.6.0'', OctetString, VBytes ''rack 4''),
     (''1.3.6.1.2.1.1.2.0'', ObjectIdentifier, VString ''.1.3.6.1.4.1.9.1.1''),
     (''1.3.6.1.2.1.1.3.0'', TimeTicks, uptime),
     (''1.3.6.1.2.1.2.1.0'', Integer, VInt 5),
     (''1.3.6.1.2.1.31.1.1.1.1.1'', OctetString, VBytes ''eth1''),
     (''1.3.6.1.2.1.31.1.1.1.1.2'', OctetString, VBytes ''eth2''),
     (''1.3.6.1.2.1.31.1.1.1.1.4'', OctetString, VBytes ''eth4''),
     (''1.3.6.1.2.1.31.1.1.1.1.5'', OctetString, VBytes ''eth5'')]"

definition lab_answer :: "go_value \<Rightarrow> string \<Rightarrow> SnmpPDU" where
  "lab_answer uptime oid =
     (case map_of (lab_answers uptime) oid of
        None \<Rightarrow> \<lparr>Name = oid, Type = NoSuchInstance, Value = VNil\<rparr>
      | Some (t, v) \<Rightarrow> \<lparr>Name = oid, Type = t, Value = v\<rparr>)"

definition lab_device :: "go_value \<Rightarrow> world" where
  "lab_device uptime =
     \<lparr>connect_error = None,
      get_reply = (\<lambda>oids.
        if ''1.3.6.1.2.1.31.1.1.1.1.3'' \<in> set oids then Inl ''request timeout''
        else Inr (map (lab_answer uptime) oids)),
      walk_reply = (\<lambda>oid.
        if oid = ''.1.3.6.1.2.1.31.1.1.1.1'' then
          (map (\<lambda>i. \<lparr>Name = ''.1.3.6.1.2.1.31.1.1.1.1.'' @ i, Type = OctetString, Value = VBytes (''eth'' @ i)\<rparr>)
             [''1'', ''2'', ''3'', ''4'', ''5''], None)
        else ([], None)),
      range_SNMPOids =
        [''1.3.6.1.2.1.1.3.0'', ''1.3.6.1.2.1.1.5.0'', ''1.3.6.1.2.1.2.1.0'',
         ''1.3.6.1.2.1.1.1.0'', ''1.3.6.1.2.1.1.6.0'', ''1.3.6.1.2.1.1.2.0''],
      range_InterfaceOids = (\<lambda>i. map fst InterfaceOids),
      snmp_lock_order = (\<lambda>n. [1..n]),
      data_lock_order = (\<lambda>n. rev [1..n]),
      sprintf_other = (\<lambda>verb v. ''?''),
      atoi_error = (\<lambda>s. ''strconv.Atoi: parsing '' @ s @ '': invalid syntax'')\<rparr>"

definition lab :: world where
  "lab = lab_device (VUint32 864005900)"

text \<open>The same device when it cannot be reached, and when it accepts the session and then stays silent.\<close>

definition unreachable :: world where
  "unreachable = lab\<lparr>connect_error := Some ''dial udp: network is unreachable''\<rparr>"

definition silent :: world where
  "silent = lab\<lparr>get_reply := (\<lambda>oids. Inl ''request timeout'')\<rparr>"

definition lab_request :: "string \<Rightarrow> go_map" where
  "lab_request version =
    [(''requestId'', VString ''42''), (''requestID'', VString ''42''), (''pluginType'', VString ''snmp''),
     (''ip'', VString ''10.0.0.1''), (''port'', VFloat64 161), (''community'', VString ''public''),
     (''version'', VString version)]"

text \<open>The device with all five interfaces answering, and the request after validation.\<close>

definition healthy :: world where
  "healthy = lab\<lparr>get_reply := (\<lambda>oids. Inr (map (lab_answer (VUint32 864005900)) oids))\<rparr>"

text \<open>
  A device that answers every get with one variable more than it was asked for: the
  answers of the lab device followed by its \<^verbatim>\<open>sysServices\<close>.
\<close>

definition chatty :: world where
  "chatty = lab\<lparr>get_reply := (\<lambda>oids.
     Inr (map (lab_answer (VUint32 864005900)) oids
          @ [\<lparr>Name = ''1.3.6.1.2.1.1.7.0'', Type = Integer, Value = VInt 72\<rparr>]))\<rparr>"

definition lab_validated :: "string \<Rightarrow> go_map" where
  "lab_validated version =
    [(''requestId'', VString ''42''), (''requestID'', VString ''42''), (''pluginType'', VString ''snmp''),
     (''ip'', VString ''10.0.0.1''), (''port'', VInt 161), (''community'', VString ''public''),
     (''version'', VString version)]"

text \<open>A request without a request id.\<close>

definition anonymous_request :: go_map where
  "anonymous_request =
    [(''pluginType'', VString ''snmp''), (''ip'', VString ''10.0.0.1''), (''port'', VFloat64 161),
     (''community'', VString ''public''), (''version'', VString ''2c'')]"

definition lab_session :: "nat \<Rightarrow> nat \<Rightarrow> GoSNMP" where
  "lab_session timeout retries =
     \<lparr>Target = ''10.0.0.1'', Port = 161, Community = ''public'', Version = Version2c,
      Timeout = timeout, Retries = retries\<rparr>"

section \<open>Evaluation lemmas\<close>

lemma show_nat_small: "n < 10 \<Longrightarrow> show_nat n = [digit_char n]"
  by (subst show_nat.simps) simp

lemma show_nat_large: "10 \<le> n \<Longrightarrow> show_nat n = show_nat (n div 10) @ [digit_char (n mod 10)]"
  by (subst show_nat.simps) simp

lemmas show_nat_eval = show_nat_small show_nat_large digit_char_def

lemmas run_defs = ret_def panic_def seq_def deferred_close_def lift_def after_def Connect_def Get_def Walk_def

lemmas map_defs = map_index_def map_store_def str_index_def fail_with_def

lemmas lib_defs =
  sprintf_d_def sprintf_02d_def show_nat_eval parse_digits_def is_digit_def digits_value_def in_int64_def
  TrimSpace_def ascii_space_def space2_def space3_def float_to_int_def parse_version_def

lemmas lab_defs =
  lab_def lab_device_def lab_request_def lab_answer_def lab_answers_def lab_session_def
  unreachable_def silent_def healthy_def chatty_def lab_validated_def anonymous_request_def

lemmas out_defs = calls_def response_field_def data_field_def record_index_def

section \<open>Maps and the interface collector\<close>

lemma map_of_store: "map_of (map_store m k v) = (map_of m)(k \<mapsto> v)"
  by (simp add: map_store_def update_conv')

lemma map_index_store: "map_index (map_store m k v) k' = (if k' = k then v else map_index m k')"
  by (simp add: map_index_def map_of_store)

lemma record_index_VMap: "record_index (VMap d) = map_index d Index"
  by (simp add: record_index_def)

lemma Split_dot_nonempty: "Split_dot s \<noteq> []"
  by (induction s) (auto split: list.splits)

lemma interface_variables_returns:
  "length variables + k \<le> length fieldNames \<Longrightarrow>
   \<exists>d. interface_variables mt mf fieldNames k variables interfaceData = Returned d \<and>
       (\<forall>key. key \<notin> set fieldNames \<longrightarrow> map_of d key = map_of interfaceData key)"
proof (induction variables arbitrary: k interfaceData)
  case Nil
  then show ?case by simp
next
  case (Cons variable rest)
  have k: "k < length fieldNames" using Cons.prems by simp
  have rest: "length rest + Suc k \<le> length fieldNames" using Cons.prems by simp
  show ?case
  proof (cases "Value variable = VNil")
    case True
    with Cons.IH [OF rest, of interfaceData] show ?thesis by simp
  next
    case False
    let ?v = "case as_bytes (Value variable) of
                None \<Rightarrow> Value variable
              | Some bytes \<Rightarrow> if fieldNames ! k = mf then VString (mt bytes) else VString bytes"
    from Cons.IH [OF rest, of "map_store interfaceData (fieldNames ! k) ?v"]
    obtain d where d: "interface_variables mt mf fieldNames (Suc k) rest
                         (map_store interfaceData (fieldNames ! k) ?v) = Returned d"
      and keep: "\<forall>key. key \<notin> set fieldNames \<longrightarrow>
                   map_of d key = map_of (map_store interfaceData (fieldNames ! k) ?v) key"
      by blast
    have "fieldNames ! k \<in> set fieldNames" using k by simp
    then have "\<forall>key. key \<notin> set fieldNames \<longrightarrow> map_of d key = map_of interfaceData key"
      using keep by (auto simp: map_of_store)
    with d False k show ?thesis by (simp add: Let_def)
  qed
qed

lemma field_name_not_index: "str_index InterfaceOids oid \<noteq> Index"
proof -
  have "list_all (\<lambda>p. snd p \<noteq> Index) InterfaceOids"
    by (simp add: InterfaceOids_def)
  then have "\<And>v. map_of InterfaceOids oid = Some v \<Longrightarrow> v \<noteq> Index"
    by (auto simp: list_all_iff dest!: map_of_SomeD)
  then show ?thesis
    by (auto simp: str_index_def split: option.splits)
qed

lemma getInterface_failed:
  "get_reply w (interface_oids w index) = Inl err \<Longrightarrow>
   getInterface w index g =
     ([NetGet (interface_oids w index)],
      Returned (map_store (map_store [] Index (VString (sprintf_d index))) Interface_Error
                  (VString (''SNMP get failed: '' @ err)), Some err))"
  by (simp add: getInterface_def run_defs)

lemma getInterface_fetched:
  assumes "bounded_replies w" and "get_reply w (interface_oids w index) = Inr variables"
  shows "\<exists>d. getInterface w index g = ([NetGet (interface_oids w index)], Returned (d, None)) \<and>
             map_index d Index = VString (sprintf_d index)"
proof -
  let ?names = "map (str_index InterfaceOids) (range_InterfaceOids w index)"
  let ?start = "map_store [] Index (VString (sprintf_d index))"
  have "length variables \<le> length (interface_oids w index)"
    using assms by (auto simp: bounded_replies_def)
  then have "length variables + 0 \<le> length ?names"
    by (simp add: interface_oids_def)
  from interface_variables_returns [OF this, of format_mac physicalAddress ?start]
  obtain d where d: "interface_variables format_mac physicalAddress ?names 0 variables ?start = Returned d"
    and keep: "\<forall>key. key \<notin> set ?names \<longrightarrow> map_of d key = map_of ?start key"
    by blast
  have "Index \<notin> set ?names"
  proof
    assume "Index \<in> set ?names"
    then obtain oid where "str_index InterfaceOids oid = Index" by auto
    with field_name_not_index [of oid] show False by simp
  qed
  with keep have "map_index d Index = VString (sprintf_d index)"
    by (simp add: map_index_def map_of_store)
  with d assms(2) show ?thesis
    by (simp add: getInterface_def run_defs)
qed

lemma getInterfaces_loop_result:
  assumes "bounded_replies w"
  shows "\<exists>records. getInterfaces_loop w g indexes interfacesData =
            (map (\<lambda>i. NetGet (interface_oids w i)) indexes, Returned (interfacesData @ records)) \<and>
          map record_index records = map (\<lambda>i. VString (sprintf_d i)) (filter (fetch_ok w) indexes)"
proof (induction indexes arbitrary: interfacesData)
  case Nil
  then show ?case by (simp add: ret_def)
next
  case (Cons index rest)
  show ?case
  proof (cases "get_reply w (interface_oids w index)")
    case (Inl err)
    from Cons.IH [of interfacesData] obtain records where
      "getInterfaces_loop w g rest interfacesData =
         (map (\<lambda>i. NetGet (interface_oids w i)) rest, Returned (interfacesData @ records))"
      "map record_index records = map (\<lambda>i. VString (sprintf_d i)) (filter (fetch_ok w) rest)"
      by blast
    moreover have "\<not> fetch_ok w index"
      using Inl by (simp add: fetch_ok_def)
    ultimately show ?thesis
      using Inl by (simp add: getInterface_failed after_def)
  next
    case (Inr variables)
    from getInterface_fetched [OF assms Inr, of g] obtain d where
      d: "getInterface w index g = ([NetGet (interface_oids w index)], Returned (d, None))"
      and ix: "map_index d Index = VString (sprintf_d index)"
      by blast
    from Cons.IH [of "interfacesData @ [VMap d]"] obtain records where
      "getInterfaces_loop w g rest (interfacesData @ [VMap d]) =
         (map (\<lambda>i. NetGet (interface_oids w i)) rest, Returned ((interfacesData @ [VMap d]) @ records))"
      "map record_index records = map (\<lambda>i. VString (sprintf_d i)) (filter (fetch_ok w) rest)"
      by blast
    moreover have "fetch_ok w index"
      using Inr by (simp add: fetch_ok_def)
    ultimately show ?thesis
      using d ix by (intro exI [of _ "VMap d # records"]) (simp add: after_def record_index_VMap)
  qed
qed

lemma getInterfaces_result:
  assumes "bounded_replies w"
  shows "\<exists>records. getInterfaces w g indexes =
            (map (\<lambda>i. NetGet (interface_oids w i)) indexes, Returned (records, None)) \<and>
          map record_index records = map (\<lambda>i. VString (sprintf_d i)) (filter (fetch_ok w) indexes)"
proof -
  from getInterfaces_loop_result [OF assms, of g indexes "[]"] obtain records where
    "getInterfaces_loop w g indexes [] = (map (\<lambda>i. NetGet (interface_oids w i)) indexes, Returned records)"
    "map record_index records = map (\<lambda>i. VString (sprintf_d i)) (filter (fetch_ok w) indexes)"
    by auto
  then show ?thesis
    by (simp add: getInterfaces_def run_defs)
qed

section \<open>Interface enumeration\<close>

lemma index_of_pdu_parsed:
  "Atoi (last (Split_dot (Name pdu))) = Some index \<Longrightarrow> index_of_pdu w indexes pdu = Inr (indexes @ [index])"
  by (simp add: index_of_pdu_def Let_def Split_dot_nonempty last_conv_nth)

lemma walk_pdus_indexes:
  "map (\<lambda>pdu. Atoi (last (Split_dot (Name pdu)))) pdus = map Some indexes \<Longrightarrow>
   walk_pdus (index_of_pdu w) pdus acc = Inr (acc @ indexes)"
proof (induction pdus arbitrary: acc indexes)
  case Nil
  then show ?case by simp
next
  case (Cons pdu rest)
  then obtain index others where ix: "indexes = index # others"
    by (cases indexes) auto
  with Cons.prems have "Atoi (last (Split_dot (Name pdu))) = Some index"
    and "map (\<lambda>pdu. Atoi (last (Split_dot (Name pdu)))) rest = map Some others"
    by auto
  with Cons.IH [of others "acc @ [index]"] ix show ?case
    by (simp add: index_of_pdu_parsed)
qed

lemma getInterfaceIndexes_calls:
  "\<exists>r. getInterfaceIndexes w g = ([NetWalk ''.1.3.6.1.2.1.31.1.1.1.1''], Returned r)"
  by (auto simp: getInterfaceIndexes_def run_defs split: sum.splits prod.splits)

lemma getInterfaceIndexes_walked:
  assumes "walk_reply w ''.1.3.6.1.2.1.31.1.1.1.1'' = (pdus, None)"
    and "map (\<lambda>pdu. Atoi (last (Split_dot (Name pdu)))) pdus = map Some indexes"
  shows "getInterfaceIndexes w g = ([NetWalk ''.1.3.6.1.2.1.31.1.1.1.1''], Returned (Inr indexes))"
  using assms(1) walk_pdus_indexes [OF assms(2), of w "[]"]
  by (simp add: getInterfaceIndexes_def run_defs)

lemma interface_data_returns:
  assumes "bounded_replies w"
  shows "\<exists>cs data'. interface_data w g data = (cs, Returned data') \<and>
           (\<forall>k. k \<noteq> Interface_Error \<and> k \<noteq> systemInterfaces \<and> k \<noteq> interfaces \<longrightarrow>
                map_of data' k = map_of data k)"
proof -
  obtain r where r: "getInterfaceIndexes w g = ([NetWalk ''.1.3.6.1.2.1.31.1.1.1.1''], Returned r)"
    using getInterfaceIndexes_calls by blast
  show ?thesis
  proof (cases r)
    case (Inl err)
    with r show ?thesis
      by (simp add: interface_data_def run_defs map_of_store)
  next
    case (Inr indexes)
    obtain records where
      "getInterfaces w g indexes = (map (\<lambda>i. NetGet (interface_oids w i)) indexes, Returned (records, None))"
      using getInterfaces_result [OF assms] by blast
    with r Inr show ?thesis
      by (simp add: interface_data_def run_defs map_of_store)
  qed
qed

lemma interface_data_walked:
  assumes "bounded_replies w"
    and "walk_reply w ''.1.3.6.1.2.1.31.1.1.1.1'' = (pdus, None)"
    and "map (\<lambda>pdu. Atoi (last (Split_dot (Name pdu)))) pdus = map Some indexes"
  shows "\<exists>records.
           interface_data w g data =
             (NetWalk ''.1.3.6.1.2.1.31.1.1.1.1'' # map (\<lambda>i. NetGet (interface_oids w i)) indexes,
              Returned (map_store (map_store data systemInterfaces (VInt (int (length indexes))))
                          interfaces (VList records))) \<and>
           map record_index records = map (\<lambda>i. VString (sprintf_d i)) (filter (fetch_ok w) indexes)"
proof -
  obtain records where
    "getInterfaces w g indexes = (map (\<lambda>i. NetGet (interface_oids w i)) indexes, Returned (records, None))"
    "map record_index records = map (\<lambda>i. VString (sprintf_d i)) (filter (fetch_ok w) indexes)"
    using getInterfaces_result [OF assms(1)] by blast
  with getInterfaceIndexes_walked [OF assms(2,3), of g] show ?thesis
    by (intro exI [of _ records]) (simp add: interface_data_def run_defs)
qed

section \<open>The scalar fetch is positional\<close>

lemma system_variables_positional:
  assumes "i + length variables \<le> length oidArray"
    and "distinct (map (str_index SNMPOids) oidArray)"
  shows "\<exists>snmpData'. system_variables oidArray i variables snmpData = Returned snmpData' \<and>
           (\<forall>j<length variables.
              map_of snmpData' (str_index SNMPOids (oidArray ! (i + j))) = Some (scalar_value (Value (variables ! j)))) \<and>
           (\<forall>key. (\<forall>j<length variables. str_index SNMPOids (oidArray ! (i + j)) \<noteq> key) \<longrightarrow>
              map_of snmpData' key = map_of snmpData key)"
  using assms(1)
proof (induction variables arbitrary: i snmpData)
  case Nil
  then show ?case by simp
next
  case (Cons variable rest)
  let ?key = "str_index SNMPOids (oidArray ! i)"
  let ?m = "map_store snmpData ?key (scalar_value (Value variable))"
  have i: "i < length oidArray" and rest: "Suc i + length rest \<le> length oidArray"
    using Cons.prems by simp_all
  from Cons.IH [OF rest, of ?m] obtain snmpData' where
    run: "system_variables oidArray (Suc i) rest ?m = Returned snmpData'"
    and pos: "\<forall>j<length rest. map_of snmpData' (str_index SNMPOids (oidArray ! (Suc i + j))) =
                 Some (scalar_value (Value (rest ! j)))"
    and keep: "\<forall>key. (\<forall>j<length rest. str_index SNMPOids (oidArray ! (Suc i + j)) \<noteq> key) \<longrightarrow>
                 map_of snmpData' key = map_of ?m key"
    by blast
  have later: "\<forall>j<length rest. str_index SNMPOids (oidArray ! (Suc i + j)) \<noteq> ?key"
  proof (intro allI impI)
    fix j assume "j < length rest"
    then have "Suc i + j < length oidArray" using rest by simp
    with assms(2) i show "str_index SNMPOids (oidArray ! (Suc i + j)) \<noteq> ?key"
      by (simp add: distinct_conv_nth)
  qed
  have first: "map_of snmpData' ?key = Some (scalar_value (Value variable))"
    using keep later by (simp add: map_of_store)
  have "\<forall>j<length (variable # rest).
          map_of snmpData' (str_index SNMPOids (oidArray ! (i + j))) =
            Some (scalar_value (Value ((variable # rest) ! j)))"
  proof (intro allI impI)
    fix j assume j: "j < length (variable # rest)"
    show "map_of snmpData' (str_index SNMPOids (oidArray ! (i + j))) =
            Some (scalar_value (Value ((variable # rest) ! j)))"
    proof (cases j)
      case 0
      with first show ?thesis by simp
    next
      case (Suc j')
      with j pos show ?thesis by simp
    qed
  qed
  moreover have "\<forall>key. (\<forall>j<length (variable # rest). str_index SNMPOids (oidArray ! (i + j)) \<noteq> key) \<longrightarrow>
                   map_of snmpData' key = map_of snmpData key"
  proof (intro allI impI)
    fix key assume other: "\<forall>j<length (variable # rest). str_index SNMPOids (oidArray ! (i + j)) \<noteq> key"
    then have "?key \<noteq> key" by force
    moreover have "\<forall>j<length rest. str_index SNMPOids (oidArray ! (Suc i + j)) \<noteq> key"
      using other by force
    ultimately show "map_of snmpData' key = map_of snmpData key"
      using keep by (simp add: map_of_store)
  qed
  ultimately show ?case
    using run i by simp
qed

lemma field_names_distinct:
  assumes "range_of SNMPOids oidArray"
  shows "distinct (map (str_index SNMPOids) oidArray)"
proof -
  have "inj_on (str_index SNMPOids) (set (map fst SNMPOids))"
    by (simp add: SNMPOids_def str_index_def)
  with assms show ?thesis
    by (simp add: range_of_def distinct_map)
qed

lemma fetchSNMPSystemData_fetched:
  assumes "range_of SNMPOids (range_SNMPOids w)"
    and "get_reply w (range_SNMPOids w) = Inr variables"
    and "length variables \<le> length (range_SNMPOids w)"
  shows "\<exists>snmpData. fetchSNMPSystemData w g = ([NetGet (range_SNMPOids w)], Returned (Inr snmpData)) \<and>
           (\<forall>i<length variables.
              map_of snmpData (str_index SNMPOids (range_SNMPOids w ! i)) = Some (scalar_value (Value (variables ! i)))) \<and>
           (\<forall>key. (\<forall>i<length variables. str_index SNMPOids (range_SNMPOids w ! i) \<noteq> key) \<longrightarrow>
              map_of snmpData key = None)"
proof -
  have "set (range_SNMPOids w) \<noteq> {}"
    using assms(1) by (simp add: range_of_def SNMPOids_def)
  then have "range_SNMPOids w \<noteq> []"
    by auto
  moreover have "0 + length variables \<le> length (range_SNMPOids w)"
    using assms(3) by simp
  from system_variables_positional [OF this field_names_distinct [OF assms(1)], of "[]"]
  obtain snmpData where "system_variables (range_SNMPOids w) 0 variables [] = Returned snmpData"
    "\<forall>i<length variables.
       map_of snmpData (str_index SNMPOids (range_SNMPOids w ! i)) = Some (scalar_value (Value (variables ! i)))"
    "\<forall>key. (\<forall>i<length variables. str_index SNMPOids (range_SNMPOids w ! i) \<noteq> key) \<longrightarrow>
       map_of snmpData key = None"
    by auto
  ultimately show ?thesis
    using assms(2) by (simp add: fetchSNMPSystemData_def Let_def seq_def Get_def lift_def ret_def)
qed

section \<open>Validation and the path to the device\<close>

lemma as_string_Some: "as_string v = Some s \<longleftrightarrow> v = VString s"
  by (cases v) auto

lemma ValidateRequest_passed:
  assumes "ValidateRequest request = (True, reqData)"
  shows "(\<exists>ip. map_index reqData IP = VString ip) \<and>
         (\<forall>k. k \<noteq> Port_key \<longrightarrow> map_of reqData k = map_of request k)"
  using assms
  by (auto simp: ValidateRequest_def map_index_def map_of_store as_string_Some
           split: option.splits if_splits)

lemma seq_Connect: "seq (Connect w g) f = after [NetConnect g] (f (connect_error w))"
  by (simp add: seq_def Connect_def after_def)

lemma FetchSNMPData_connected:
  assumes "ValidateRequest request = (True, reqData)"
    and "map_index request Community_key = VString community"
    and "map_index request Version_key = VString version"
    and "parse_version version = Some v"
    and "connect_error w = None"
  shows "\<exists>g. FetchSNMPData w request =
           after [NetConnect g]
             (deferred_close
                (seq (fetchSNMPSystemData w g) (\<lambda>r.
                   case r of
                     Inl e \<Rightarrow>
                       ret (map_store
                              (map_store reqData Data (VMap [(Errors, VString SNMPConnectFail), (Message, VString e)]))
                              Status (VString Success))
                   | Inr systemData \<Rightarrow>
                       seq (interface_data w g (system_data systemData)) (\<lambda>data.
                         ret (map_store (map_store reqData Data (VMap data)) Status (VString Success))))))"
proof -
  from ValidateRequest_passed [OF assms(1)] obtain ip where
    ip: "map_index reqData IP = VString ip"
    and keep: "\<forall>k. k \<noteq> Port_key \<longrightarrow> map_of reqData k = map_of request k"
    by blast
  have "map_index reqData Community_key = VString community"
    and "map_index reqData Version_key = VString version"
    using keep assms(2,3) by (simp_all add: map_index_def)
  with ip assms(1,4,5) show ?thesis
    by (intro exI [of _ "\<lparr>Target = ip, Port = 161, Community = community, Version = v,
                           Timeout = 500, Retries = 1\<rparr>"])
       (simp add: FetchSNMPData_def seq_Connect Let_def del: One_nat_def)
qed


lemma bounded_repliesD: "bounded_replies w \<Longrightarrow> get_reply w oids = Inr variables \<Longrightarrow> length variables \<le> length oids"
  by (auto simp: bounded_replies_def)

lemma FetchSNMPData_polled:
  assumes "ValidateRequest request = (True, reqData)"
    and "map_index request Community_key = VString community"
    and "map_index request Version_key = VString version"
    and "parse_version version = Some v"
    and "connect_error w = None"
    and "range_of SNMPOids (range_SNMPOids w)"
    and "get_reply w (range_SNMPOids w) = Inr variables"
    and "bounded_replies w"
  shows "\<exists>cs snmpData data.
           FetchSNMPData w request =
             (cs, Returned (map_store (map_store reqData Data (VMap data)) Status (VString Success))) \<and>
           (\<forall>i<length variables.
              map_of snmpData (str_index SNMPOids (range_SNMPOids w ! i)) = Some (scalar_value (Value (variables ! i)))) \<and>
           (\<forall>key. (\<forall>i<length variables. str_index SNMPOids (range_SNMPOids w ! i) \<noteq> key) \<longrightarrow>
              map_of snmpData key = None) \<and>
           (\<forall>k. k \<noteq> Interface_Error \<and> k \<noteq> systemInterfaces \<and> k \<noteq> interfaces \<longrightarrow>
              map_of data k = map_of (system_data snmpData) k)"
proof -
  from FetchSNMPData_connected [OF assms(1-5)] obtain g where
    run: "FetchSNMPData w request =
           after [NetConnect g]
             (deferred_close
                (seq (fetchSNMPSystemData w g) (\<lambda>r.
                   case r of
                     Inl e \<Rightarrow>
                       ret (map_store
                              (map_store reqData Data (VMap [(Errors, VString SNMPConnectFail), (Message, VString e)]))
                              Status (VString Success))
                   | Inr systemData \<Rightarrow>
                       seq (interface_data w g (system_data systemData)) (\<lambda>data.
                         ret (map_store (map_store reqData Data (VMap data)) Status (VString Success))))))"
    by blast
  from fetchSNMPSystemData_fetched [OF assms(6,7) bounded_repliesD [OF assms(8,7)], of g]
  obtain snmpData where
    sys: "fetchSNMPSystemData w g = ([NetGet (range_SNMPOids w)], Returned (Inr snmpData))"
    and pos: "\<forall>i<length variables.
       map_of snmpData (str_index SNMPOids (range_SNMPOids w ! i)) = Some (scalar_value (Value (variables ! i)))"
    and none: "\<forall>key. (\<forall>i<length variables. str_index SNMPOids (range_SNMPOids w ! i) \<noteq> key) \<longrightarrow>
       map_of snmpData key = None"
    by blast
  from interface_data_returns [OF assms(8), of g "system_data snmpData"] obtain cs data where
    ifs: "interface_data w g (system_data snmpData) = (cs, Returned data)"
    and keep: "\<forall>k. k \<noteq> Interface_Error \<and> k \<noteq> systemInterfaces \<and> k \<noteq> interfaces \<longrightarrow>
                 map_of data k = map_of (system_data snmpData) k"
    by blast
  have "FetchSNMPData w request =
          (NetConnect g # NetGet (range_SNMPOids w) # cs @ [NetClose],
           Returned (map_store (map_store reqData Data (VMap data)) Status (VString Success)))"
    by (simp add: run sys ifs seq_def after_def deferred_close_def ret_def)
  with pos none keep show ?thesis by blast
qed

lemma FetchSNMPData_walked:
  assumes "ValidateRequest request = (True, reqData)"
    and "map_index request Community_key = VString community"
    and "map_index request Version_key = VString version"
    and "parse_version version = Some v"
    and "connect_error w = None"
    and "range_of SNMPOids (range_SNMPOids w)"
    and "get_reply w (range_SNMPOids w) = Inr variables"
    and "bounded_replies w"
    and "walk_reply w ''.1.3.6.1.2.1.31.1.1.1.1'' = (pdus, None)"
    and "map (\<lambda>pdu. Atoi (last (Split_dot (Name pdu)))) pdus = map Some indexes"
  shows "\<exists>g snmpData records.
           FetchSNMPData w request =
             (NetConnect g # NetGet (range_SNMPOids w) # NetWalk ''.1.3.6.1.2.1.31.1.1.1.1'' #
                map (\<lambda>i. NetGet (interface_oids w i)) indexes @ [NetClose],
              Returned
                (map_store
                   (map_store reqData Data
                      (VMap (map_store
                               (map_store (system_data snmpData) systemInterfaces (VInt (int (length indexes))))
                               interfaces (VList records))))
                   Status (VString Success))) \<and>
           map record_index records = map (\<lambda>i. VString (sprintf_d i)) (filter (fetch_ok w) indexes)"
proof -
  from FetchSNMPData_connected [OF assms(1-5)] obtain g where
    run: "FetchSNMPData w request =
           after [NetConnect g]
             (deferred_close
                (seq (fetchSNMPSystemData w g) (\<lambda>r.
                   case r of
                     Inl e \<Rightarrow>
                       ret (map_store
                              (map_store reqData Data (VMap [(Errors, VString SNMPConnectFail), (Message, VString e)]))
                              Status (VString Success))
                   | Inr systemData \<Rightarrow>
                       seq (interface_data w g (system_data systemData)) (\<lambda>data.
                         ret (map_store (map_store reqData Data (VMap data)) Status (VString Success))))))"
    by blast
  from fetchSNMPSystemData_fetched [OF assms(6,7) bounded_repliesD [OF assms(8,7)], of g]
  obtain snmpData where
    sys: "fetchSNMPSystemData w g = ([NetGet (range_SNMPOids w)], Returned (Inr snmpData))"
    by blast
  from interface_data_walked [OF assms(8,9,10), of g "system_data snmpData"] obtain records where
    ifs: "interface_data w g (system_data snmpData) =
            (NetWalk ''.1.3.6.1.2.1.31.1.1.1.1'' # map (\<lambda>i. NetGet (interface_oids w i)) indexes,
             Returned (map_store (map_store (system_data snmpData) systemInterfaces (VInt (int (length indexes))))
                         interfaces (VList records)))"
    and recs: "map record_index records = map (\<lambda>i. VString (sprintf_d i)) (filter (fetch_ok w) indexes)"
    by blast
  have "FetchSNMPData w request =
          (NetConnect g # NetGet (range_SNMPOids w) # NetWalk ''.1.3.6.1.2.1.31.1.1.1.1'' #
             map (\<lambda>i. NetGet (interface_oids w i)) indexes @ [NetClose],
           Returned
             (map_store
                (map_store reqData Data
                   (VMap (map_store
                            (map_store (system_data snmpData) systemInterfaces (VInt (int (length indexes))))
                            interfaces (VList records))))
                Status (VString Success)))"
    by (simp add: run sys ifs seq_def after_def deferred_close_def ret_def)
  with recs show ?thesis by blast
qed

section \<open>Facts about the example device\<close>

lemma lab_validates: "ValidateRequest (lab_request version) = (True, lab_validated version)"
  by (simp add: ValidateRequest_def map_defs lib_defs lab_defs)

lemma lab_range: "range_of SNMPOids (range_SNMPOids (lab_device u))"
  by (simp add: range_of_def SNMPOids_def lab_defs) blast

lemma lab_bounded: "bounded_replies (lab_device u)"
  by (auto simp: bounded_replies_def lab_device_def split: if_splits)

lemma healthy_bounded: "bounded_replies healthy"
  by (auto simp: bounded_replies_def lab_defs)

lemma lab_walk:
  "walk_reply (lab_device u) ''.1.3.6.1.2.1.31.1.1.1.1'' =
     (map (\<lambda>i. \<lparr>Name = ''.1.3.6.1.2.1.31.1.1.1.1.'' @ i, Type = OctetString, Value = VBytes (''eth'' @ i)\<rparr>)
        [''1'', ''2'', ''3'', ''4'', ''5''], None)"
  by (simp add: lab_device_def)

lemma lab_indexes:
  "map (\<lambda>pdu. Atoi (last (Split_dot (Name pdu))))
     (map (\<lambda>i. \<lparr>Name = ''.1.3.6.1.2.1.31.1.1.1.1.'' @ i, Type = OctetString, Value = VBytes (''eth'' @ i)\<rparr>)
        [''1'', ''2'', ''3'', ''4'', ''5'']) = map Some [1, 2, 3, 4, 5]"
  by (simp add: lib_defs)

lemma lab_system_get:
  "get_reply (lab_device u) (range_SNMPOids (lab_device u)) = Inr (map (lab_answer u) (range_SNMPOids (lab_device u)))"
  by (simp add: lab_device_def)


lemma healthy_fetch_ok: "list_all (fetch_ok healthy) [1, 2, 3, 4, 5]"
  by (simp add: fetch_ok_def lab_defs)

lemma lab_typed: "typed_replies (lab_device u)"
proof -
  have "Type (lab_answer u oid) \<noteq> OctetString \<or> as_bytes (Value (lab_answer u oid)) \<noteq> None" for oid
    by (simp add: lab_answer_def lab_answers_def)
  then show ?thesis
    by (auto simp: typed_replies_def lab_device_def list_all_iff)
qed

section \<open>The uptime scalar\<close>

lemma uptime_field_name: "str_index SNMPOids ''1.3.6.1.2.1.1.3.0'' = systemUptime"
  by (simp add: str_index_def SNMPOids_def)

lemma uptime_oid:
  assumes "oid \<in> set (map fst SNMPOids)" and "str_index SNMPOids oid = systemUptime"
  shows "oid = ''1.3.6.1.2.1.1.3.0''"
proof -
  have "list_all (\<lambda>oid. str_index SNMPOids oid = systemUptime \<longrightarrow> oid = ''1.3.6.1.2.1.1.3.0'') (map fst SNMPOids)"
    by (simp add: SNMPOids_def str_index_def)
  with assms show ?thesis
    by (auto simp: list_all_iff)
qed

lemma as_uint32_scalar_value: "as_uint32 (scalar_value v) = as_uint32 v"
  by (cases v) (simp_all add: scalar_value_def)

lemma system_data_uptime:
  "map_of (system_data snmpData) systemUptime =
     map_option (\<lambda>u. VString (uptime_text u)) (as_uint32 (map_index snmpData systemUptime))"
  by (simp add: system_data_def Let_def map_of_store split: option.splits)

lemma response_data:
  "data_field k (cs, Returned (map_store (map_store reqData Data (VMap data)) Status v)) = map_of data k"
  by (simp add: data_field_def response_field_def map_of_store)

lemma response_status:
  "response_field Status (cs, Returned (map_store m Status v)) = Some v"
  by (simp add: response_field_def map_of_store)

lemma FetchSNMPData_uptime:
  assumes "ValidateRequest request = (True, reqData)"
    and "map_index request Community_key = VString community"
    and "map_index request Version_key = VString version"
    and "parse_version version = Some v"
    and "connect_error w = None"
    and "range_of SNMPOids (range_SNMPOids w)"
    and "get_reply w (range_SNMPOids w) = Inr variables"
    and "bounded_replies w"
    and "(''1.3.6.1.2.1.1.3.0'', variable) \<in> set (zip (range_SNMPOids w) variables)"
    and "Value variable = VUint32 u"
  shows "data_field systemUptime (FetchSNMPData w request) = Some (VString (uptime_text u))"
proof -
  from FetchSNMPData_polled [OF assms(1-8)] obtain cs snmpData data where
    run: "FetchSNMPData w request =
            (cs, Returned (map_store (map_store reqData Data (VMap data)) Status (VString Success)))"
    and pos: "\<forall>i<length variables.
            map_of snmpData (str_index SNMPOids (range_SNMPOids w ! i)) = Some (scalar_value (Value (variables ! i)))"
    and none: "\<forall>key. (\<forall>i<length variables. str_index SNMPOids (range_SNMPOids w ! i) \<noteq> key) \<longrightarrow>
            map_of snmpData key = None"
    and keep: "\<forall>k. k \<noteq> Interface_Error \<and> k \<noteq> systemInterfaces \<and> k \<noteq> interfaces \<longrightarrow>
            map_of data k = map_of (system_data snmpData) k"
    by (elim exE conjE) (rule that)
  from assms(9) obtain i where i: "i < length variables"
    and oid: "range_SNMPOids w ! i = ''1.3.6.1.2.1.1.3.0''" and var: "variables ! i = variable"
    unfolding in_set_zip by auto
  from pos i have "map_of snmpData (str_index SNMPOids (range_SNMPOids w ! i)) =
                     Some (scalar_value (Value (variables ! i)))"
    by blast
  then have "map_of snmpData systemUptime = Some (scalar_value (VUint32 u))"
    by (simp only: oid var assms(10) uptime_field_name)
  then have "map_index snmpData systemUptime = VUint32 u"
    by (simp add: scalar_value_def map_index_def)
  then have "map_of (system_data snmpData) systemUptime = Some (VString (uptime_text u))"
    by (simp add: system_data_uptime)
  moreover from keep have "map_of data systemUptime = map_of (system_data snmpData) systemUptime"
    by simp
  ultimately have "map_of data systemUptime = Some (VString (uptime_text u))"
    by simp
  then show ?thesis
    unfolding run response_data .
qed



lemma FetchSNMPData_no_uptime:
  assumes "ValidateRequest request = (True, reqData)"
    and "map_index request Community_key = VString community"
    and "map_index request Version_key = VString version"
    and "parse_version version = Some v"
    and "connect_error w = None"
    and "range_of SNMPOids (range_SNMPOids w)"
    and "get_reply w (range_SNMPOids w) = Inr variables"
    and "bounded_replies w"
    and "\<forall>(oid, variable) \<in> set (zip (range_SNMPOids w) variables).
           oid = ''1.3.6.1.2.1.1.3.0'' \<longrightarrow> as_uint32 (Value variable) = None"
  shows "\<exists>cs data. FetchSNMPData w request =
           (cs, Returned (map_store (map_store reqData Data (VMap data)) Status (VString Success))) \<and>
         map_of data systemUptime = None"
proof -
  from FetchSNMPData_polled [OF assms(1-8)] obtain cs snmpData data where
    run: "FetchSNMPData w request =
            (cs, Returned (map_store (map_store reqData Data (VMap data)) Status (VString Success)))"
    and pos: "\<forall>i<length variables.
            map_of snmpData (str_index SNMPOids (range_SNMPOids w ! i)) = Some (scalar_value (Value (variables ! i)))"
    and none: "\<forall>key. (\<forall>i<length variables. str_index SNMPOids (range_SNMPOids w ! i) \<noteq> key) \<longrightarrow>
            map_of snmpData key = None"
    and keep: "\<forall>k. k \<noteq> Interface_Error \<and> k \<noteq> systemInterfaces \<and> k \<noteq> interfaces \<longrightarrow>
            map_of data k = map_of (system_data snmpData) k"
    by (elim exE conjE) (rule that)
  have len: "length variables \<le> length (range_SNMPOids w)"
    using bounded_repliesD [OF assms(8,7)] .
  have "as_uint32 (map_index snmpData systemUptime) = None"
  proof (cases "\<exists>i<length variables. str_index SNMPOids (range_SNMPOids w ! i) = systemUptime")
    case True
    then obtain i where i: "i < length variables"
      and name: "str_index SNMPOids (range_SNMPOids w ! i) = systemUptime"
      by blast
    have "range_SNMPOids w ! i \<in> set (map fst SNMPOids)"
      using assms(6) i len by (auto simp: range_of_def)
    from uptime_oid [OF this name] have oid: "range_SNMPOids w ! i = ''1.3.6.1.2.1.1.3.0''" .
    have "(range_SNMPOids w ! i, variables ! i) \<in> set (zip (range_SNMPOids w) variables)"
      using i len by (auto simp: in_set_zip)
    with assms(9) oid have "as_uint32 (Value (variables ! i)) = None"
      by auto
    moreover from pos i name have "map_of snmpData systemUptime = Some (scalar_value (Value (variables ! i)))"
      by auto
    ultimately show ?thesis
      by (simp add: map_index_def as_uint32_scalar_value)
  next
    case False
    with none have "map_of snmpData systemUptime = None"
      by auto
    then show ?thesis
      by (simp add: map_index_def)
  qed
  then have "map_of (system_data snmpData) systemUptime = None"
    by (simp add: system_data_uptime)
  with keep have "map_of data systemUptime = None"
    by simp
  with run show ?thesis
    by blast
qed

lemma uptime_text_example: "uptime_text 864005900 = ''Uptime: 100 days, 00 hours, 00 minutes, 59 seconds''"
  by (simp add: uptime_text_def sprintf_02d_def show_nat_eval)

lemma lab_uptime_variable:
  "(''1.3.6.1.2.1.1.3.0'', lab_answer u ''1.3.6.1.2.1.1.3.0'') \<in>
     set (zip (range_SNMPOids (lab_device u)) (map (lab_answer u) (range_SNMPOids (lab_device u))))"
  by (simp add: lab_device_def)

lemma lab_uptime_value: "Value (lab_answer u ''1.3.6.1.2.1.1.3.0'') = u"
  by (simp add: lab_answer_def lab_answers_def)

lemma lab_community: "map_index (lab_request version) Community_key = VString ''public''"
  and lab_version: "map_index (lab_request version) Version_key = VString version"
  by (simp_all add: lab_request_def map_index_def)

lemma lab_connects: "connect_error (lab_device u) = None"
  by (simp add: lab_device_def)

section \<open>The claims\<close>

text \<open>
  C9 (corrected). The claim gives the text \<open>100 days, 00 hours, 00 minutes, 00 seconds\<close> for
  the tick count 864005900. The code divides the ticks by 100 into 8640059 whole seconds,
  which are 100 days and 59 seconds, and it writes the prefix \<open>Uptime: \<close> before the days.
  As amended, for \<^verbatim>\<open>FetchSNMPData\<close> of \<^verbatim>\<open>part_004\<close>, for every request and device such that

  \<^enum> the request passes \<^verbatim>\<open>ValidateRequest\<close>;
  \<^enum> its community is a string, and its version is one of the strings \<open>1\<close>, \<open>2\<close>, \<open>2c\<close>,
    \<open>3\<close>;
  \<^enum> the connect succeeds;
  \<^enum> the \<^verbatim>\<open>range\<close> over the system OID table yields each of its six OIDs once;
  \<^enum> the device answers the batched scalar get of these OIDs without error;
  \<^enum> the device answers no get, whatever OIDs it is asked (the scalar ones or those of an
    interface), with more variables than OIDs asked;
  \<^enum> in the answer to the scalar get, the variable at the position of the uptime OID
    \<open>1.3.6.1.2.1.1.3.0\<close> has the value 864005900 of type \<^verbatim>\<open>uint32\<close>:

  the pipeline returns, and the field \<open>system.uptime\<close> of its data is exactly
  \<open>Uptime: 100 days, 00 hours, 00 minutes, 59 seconds\<close>.
\<close>

theorem uptime_864005900_rendered:
  assumes "ValidateRequest request = (True, reqData)"
    and "map_index request Community_key = VString community"
    and "map_index request Version_key = VString version"
    and "parse_version version = Some v"
    and "connect_error w = None"
    and "range_of SNMPOids (range_SNMPOids w)"
    and "get_reply w (range_SNMPOids w) = Inr variables"
    and "bounded_replies w"
    and "(''1.3.6.1.2.1.1.3.0'', variable) \<in> set (zip (range_SNMPOids w) variables)"
    and "Value variable = VUint32 864005900"
  shows "data_field systemUptime (FetchSNMPData w request) =
           Some (VString ''Uptime: 100 days, 00 hours, 00 minutes, 59 seconds'')"
  using FetchSNMPData_uptime [OF assms] by (simp add: uptime_text_example)

theorem uptime_864005900_rendered_witness:
  "data_field systemUptime (FetchSNMPData lab (lab_request ''2c'')) =
     Some (VString ''Uptime: 100 days, 00 hours, 00 minutes, 59 seconds'')"
  unfolding lab_def
  by (rule uptime_864005900_rendered
        [OF lab_validates lab_community lab_version _ lab_connects [of "VUint32 864005900"]
            lab_range lab_system_get lab_bounded lab_uptime_variable lab_uptime_value])
     (simp add: parse_version_def)

theorem uptime_864005900_counterexample:
  "data_field systemUptime (FetchSNMPData lab (lab_request ''2c'')) =
     Some (VString ''Uptime: 100 days, 00 hours, 00 minutes, 59 seconds'') \<and>
   data_field systemUptime (FetchSNMPData lab (lab_request ''2c'')) \<noteq>
     Some (VString ''100 days, 00 hours, 00 minutes, 00 seconds'')"
proof -
  have "parse_version ''2c'' = Some Version2c"
    by (simp add: parse_version_def)
  from FetchSNMPData_uptime
         [OF lab_validates lab_community lab_version this lab_connects [of "VUint32 864005900"]
             lab_range lab_system_get lab_bounded lab_uptime_variable lab_uptime_value]
  show ?thesis
    by (simp add: lab_def uptime_text_example)
qed

lemma parse_version_2c: "parse_version ''2c'' = Some Version2c"
  by (simp add: parse_version_def)

lemma lab_no_uptime:
  "\<forall>(oid, variable) \<in> set (zip (range_SNMPOids (lab_device VNil))
                               (map (lab_answer VNil) (range_SNMPOids (lab_device VNil)))).
     oid = ''1.3.6.1.2.1.1.3.0'' \<longrightarrow> as_uint32 (Value variable) = None"
  by (simp add: lab_device_def lab_answer_def lab_answers_def)

text \<open>
  C4 (corrected). The claim asks for a fail result when the uptime scalar is absent or not a
  tick value. The pipeline of \<^verbatim>\<open>part_004\<close> tests the type of the value and, when it is
  not a 32-bit tick count, leaves the field out and goes on: the job succeeds. (The
  pipeline of \<^verbatim>\<open>part_005\<close> asserts the type without a test and panics: the second part of
  the counterexample.) As amended, for \<^verbatim>\<open>FetchSNMPData\<close> of \<^verbatim>\<open>part_004\<close>, for every request
  and device such that

  \<^enum> the request passes \<^verbatim>\<open>ValidateRequest\<close>;
  \<^enum> its community is a string, and its version is one of the strings \<open>1\<close>, \<open>2\<close>, \<open>2c\<close>,
    \<open>3\<close>;
  \<^enum> the connect succeeds;
  \<^enum> the \<^verbatim>\<open>range\<close> over the system OID table yields each of its six OIDs once;
  \<^enum> the device answers the batched scalar get of these OIDs without error;
  \<^enum> the device answers no get, whatever OIDs it is asked (the scalar ones or those of an
    interface), with more variables than OIDs asked;
  \<^enum> the answer to the scalar get has, at the position of the uptime OID
    \<open>1.3.6.1.2.1.1.3.0\<close>, no variable or a variable whose value is not a \<^verbatim>\<open>uint32\<close>:

  the pipeline returns (it does not panic) the validated request with status \<open>success\<close> and
  with a data map that has no key \<open>system.uptime\<close>.
\<close>

theorem uptime_not_numeric_is_omitted:
  assumes "ValidateRequest request = (True, reqData)"
    and "map_index request Community_key = VString community"
    and "map_index request Version_key = VString version"
    and "parse_version version = Some v"
    and "connect_error w = None"
    and "range_of SNMPOids (range_SNMPOids w)"
    and "get_reply w (range_SNMPOids w) = Inr variables"
    and "bounded_replies w"
    and "\<forall>(oid, variable) \<in> set (zip (range_SNMPOids w) variables).
           oid = ''1.3.6.1.2.1.1.3.0'' \<longrightarrow> as_uint32 (Value variable) = None"
  shows "\<exists>cs data. FetchSNMPData w request =
           (cs, Returned (map_store (map_store reqData Data (VMap data)) Status (VString Success))) \<and>
         map_of data systemUptime = None"
  using assms by (rule FetchSNMPData_no_uptime)

theorem uptime_not_numeric_is_omitted_witness:
  "\<exists>cs data. FetchSNMPData (lab_device VNil) (lab_request ''2c'') =
           (cs, Returned (map_store (map_store (lab_validated ''2c'') Data (VMap data)) Status (VString Success))) \<and>
         map_of data systemUptime = None"
  by (rule uptime_not_numeric_is_omitted
        [OF lab_validates lab_community lab_version parse_version_2c lab_connects lab_range lab_system_get
            lab_bounded lab_no_uptime])

theorem uptime_not_numeric_counterexample:
  "response_field Status (FetchSNMPData (lab_device VNil) (lab_request ''2c'')) = Some (VString Success) \<and>
   FetchSNMPData_part5 (lab_device VNil) anonymous_request =
     ([NetConnect (lab_session 500 0), NetGet (range_SNMPOids (lab_device VNil)), NetClose],
      Panicked ''interface conversion: system.uptime is not uint32'')"
proof -
  from FetchSNMPData_no_uptime
         [OF lab_validates lab_community lab_version parse_version_2c lab_connects lab_range lab_system_get
             lab_bounded lab_no_uptime]
  obtain cs data where
    "FetchSNMPData (lab_device VNil) (lab_request ''2c'') =
       (cs, Returned (map_store (map_store (lab_validated ''2c'') Data (VMap data)) Status (VString Success)))"
    "map_of data systemUptime = None"
    by (elim exE conjE) (rule that)
  then have "response_field Status (FetchSNMPData (lab_device VNil) (lab_request ''2c'')) = Some (VString Success)"
    by (simp add: response_status)
  moreover have "FetchSNMPData_part5 (lab_device VNil) anonymous_request =
     ([NetConnect (lab_session 500 0), NetGet (range_SNMPOids (lab_device VNil)), NetClose],
      Panicked ''interface conversion: system.uptime is not uint32'')"
    by (simp add: FetchSNMPData_part5_def ValidateRequest_3_def fetchSNMPSystemData_def SNMPOids_def
          scalar_value_def run_defs map_defs lib_defs lab_defs)
  ultimately show ?thesis
    by blast
qed



lemma upto_5: "[1..5] = [1, 2, 3, 4, (5::int)]"
  by (simp add: upto_rec1)


text \<open>
  C6 (corrected). The pipeline of \<^verbatim>\<open>src/snmp/snmpfetcher.go\<close> reads the interface count
  from the scalar \<open>system.interfaces\<close> and fetches the indexes \<open>1..N\<close>: on the example
  device its calls are the connect, the scalar get, the gets of the indexes 1 to 5 and the
  close, without a walk (the counterexample). As amended, for \<^verbatim>\<open>FetchSNMPData\<close> of
  \<^verbatim>\<open>part_004\<close>, for every request and device such that

  \<^enum> the request passes \<^verbatim>\<open>ValidateRequest\<close>;
  \<^enum> its community is a string, and its version is one of the strings \<open>1\<close>, \<open>2\<close>, \<open>2c\<close>,
    \<open>3\<close>;
  \<^enum> the connect succeeds;
  \<^enum> the \<^verbatim>\<open>range\<close> over the system OID table yields each of its six OIDs once;
  \<^enum> the device answers the batched scalar get of these OIDs without error;
  \<^enum> the device answers no get, whatever OIDs it is asked (the scalar ones or those of an
    interface), with more variables than OIDs asked;
  \<^enum> the walk of the interface-name column \<open>.1.3.6.1.2.1.31.1.1.1.1\<close> delivers its
    variables and ends without error;
  \<^enum> in the name of every delivered variable the text after the last dot is read by
    \<^verbatim>\<open>strconv.Atoi\<close> as a number: these numbers, in the order of delivery, are the
    discovered indexes:

  the calls of the pipeline are, in this order, the connect, the scalar get, one walk of
  the column \<open>.1.3.6.1.2.1.31.1.1.1.1\<close>, one get of the OIDs of each discovered index in the
  order of discovery, and the close; and \<open>system.interfaces\<close> of the data is the number of
  discovered indexes.
\<close>

theorem interfaces_enumerated_by_walk:
  assumes "ValidateRequest request = (True, reqData)"
    and "map_index request Community_key = VString community"
    and "map_index request Version_key = VString version"
    and "parse_version version = Some v"
    and "connect_error w = None"
    and "range_of SNMPOids (range_SNMPOids w)"
    and "get_reply w (range_SNMPOids w) = Inr variables"
    and "bounded_replies w"
    and "walk_reply w ''.1.3.6.1.2.1.31.1.1.1.1'' = (pdus, None)"
    and "map (\<lambda>pdu. Atoi (last (Split_dot (Name pdu)))) pdus = map Some indexes"
  shows "\<exists>g. calls (FetchSNMPData w request) =
               NetConnect g # NetGet (range_SNMPOids w) # NetWalk ''.1.3.6.1.2.1.31.1.1.1.1'' #
                 map (\<lambda>i. NetGet (interface_oids w i)) indexes @ [NetClose] \<and>
             data_field systemInterfaces (FetchSNMPData w request) = Some (VInt (int (length indexes)))"
proof -
  from FetchSNMPData_walked [OF assms] obtain g snmpData records where
    run: "FetchSNMPData w request =
             (NetConnect g # NetGet (range_SNMPOids w) # NetWalk ''.1.3.6.1.2.1.31.1.1.1.1'' #
                map (\<lambda>i. NetGet (interface_oids w i)) indexes @ [NetClose],
              Returned
                (map_store
                   (map_store reqData Data
                      (VMap (map_store
                               (map_store (system_data snmpData) systemInterfaces (VInt (int (length indexes))))
                               interfaces (VList records))))
                   Status (VString Success)))"
    and recs: "map record_index records = map (\<lambda>i. VString (sprintf_d i)) (filter (fetch_ok w) indexes)"
    by (elim exE conjE) (rule that)
  have "data_field systemInterfaces (FetchSNMPData w request) = Some (VInt (int (length indexes)))"
    unfolding run response_data by (simp add: map_of_store)
  then show ?thesis
    unfolding run calls_def by simp
qed

theorem interfaces_enumerated_by_walk_witness:
  "\<exists>g. calls (FetchSNMPData lab (lab_request ''2c'')) =
          NetConnect g # NetGet (range_SNMPOids lab) # NetWalk ''.1.3.6.1.2.1.31.1.1.1.1'' #
            map (\<lambda>i. NetGet (interface_oids lab i)) [1, 2, 3, 4, 5] @ [NetClose] \<and>
        data_field systemInterfaces (FetchSNMPData lab (lab_request ''2c'')) = Some (VInt 5)"
  using interfaces_enumerated_by_walk
          [OF lab_validates lab_community lab_version parse_version_2c lab_connects [of "VUint32 864005900"]
              lab_range lab_system_get lab_bounded lab_walk lab_indexes]
  unfolding lab_def by simp

lemma lab_system_strings:
  "FetchSNMPSystemData lab g =
     ([NetGet (range_SNMPOids lab)],
      Returned (Inr [(systemUptime, ''864005900''), (systemName, ''core-sw1''), (systemInterfaces, ''5''),
                     (systemDescription, ''edge switch''), (systemLocation, ''rack 4''),
                     (systemObjectID, ''.1.3.6.1.4.1.9.1.1'')]))"
  by (simp add: FetchSNMPSystemData_def system_string_def sprintf_v_def SNMPOids_def run_defs map_defs lib_defs
        lab_defs)

lemma seq_Returned: "seq (cs, Returned x) f = after cs (f x)"
  by (simp add: seq_def after_def)

lemma after_pair: "after cs (cs', r) = (cs @ cs', r)"
  by (simp add: after_def)

lemma deferred_close_pair: "deferred_close (cs, r) = (cs @ [NetClose], r)"
  by (simp add: deferred_close_def)

lemma interface_strings_returns:
  "length variables + k \<le> length fieldNames \<Longrightarrow>
   \<exists>d. interface_strings w fieldNames k variables interfaceData = Returned d"
proof (induction variables arbitrary: k interfaceData)
  case Nil
  then show ?case by simp
next
  case (Cons variable rest)
  have "length rest + Suc k \<le> length fieldNames" and "k < length fieldNames"
    using Cons.prems by simp_all
  with Cons.IH show ?case
    by (simp add: Let_def)
qed

lemma getInterface_fetcher_returns:
  assumes "bounded_replies w"
  shows "\<exists>d. getInterface_fetcher w i g = ([NetGet (interface_oids w i)], Returned d)"
proof (cases "get_reply w (interface_oids w i)")
  case (Inl err)
  then show ?thesis
    by (simp add: getInterface_fetcher_def run_defs)
next
  case (Inr variables)
  let ?names = "map (str_index InterfaceOids_config) (range_InterfaceOids w i)"
  have "length variables + 0 \<le> length ?names"
    using bounded_repliesD [OF assms Inr] by (simp add: interface_oids_def)
  from interface_strings_returns [OF this]
  obtain d where "interface_strings w ?names 0 variables (map_store [] ''Index'' (VString (sprintf_d i))) = Returned d"
    by blast
  with Inr show ?thesis
    by (simp add: getInterface_fetcher_def run_defs)
qed

lemma collect_Returned:
  "list_all (\<lambda>r. \<exists>x. r = Returned x) rs \<Longrightarrow> \<exists>xs. collect rs = Returned xs \<and> length xs = length rs"
  by (induction rs) auto

lemma GetInterfaces_returns:
  assumes "bounded_replies w"
  shows "\<exists>interfacesData.
           GetInterfaces w g numInterfaces =
             (map (\<lambda>i. NetGet (interface_oids w i)) (snmp_lock_order w numInterfaces),
              Returned (interfacesData, None))"
proof -
  have calls: "fst (getInterface_fetcher w i g) = [NetGet (interface_oids w i)]" for i
    using getInterface_fetcher_returns [OF assms, of i g] by auto
  have "\<exists>x. snd (getInterface_fetcher w i g) = Returned x" for i
    using getInterface_fetcher_returns [OF assms, of i g] by auto
  then have "list_all (\<lambda>r. \<exists>x. r = Returned x)
          (map (\<lambda>i. snd (getInterface_fetcher w i g)) (data_lock_order w numInterfaces))"
    by (simp add: list_all_iff)
  from collect_Returned [OF this] obtain xs where
    "collect (map (\<lambda>i. snd (getInterface_fetcher w i g)) (data_lock_order w numInterfaces)) = Returned xs"
    by blast
  then show ?thesis
    by (simp add: GetInterfaces_def calls)
qed

theorem count_based_enumeration_counterexample:
  "calls (FetchSNMPData_fetcher lab ''10.0.0.1'' ''public'' ''2c'') =
     NetConnect (lab_session 2000 2) # NetGet (range_SNMPOids lab) #
       map (\<lambda>i. NetGet (interface_oids lab i)) [1, 2, 3, 4, 5] @ [NetClose]"
proof -
  let ?g = "lab_session 2000 2"
  have order: "snmp_lock_order lab 5 = [1, 2, 3, 4, 5]"
    by (simp add: lab_defs upto_5)
  have connects: "connect_error lab = None"
    by (simp add: lab_defs)
  have "bounded_replies lab"
    unfolding lab_def by (rule lab_bounded)
  from GetInterfaces_returns [OF this, of ?g 5] obtain interfacesData where
    collected: "GetInterfaces lab ?g 5 = (map (\<lambda>i. NetGet (interface_oids lab i)) [1, 2, 3, 4, 5],
                  Returned (interfacesData, None))"
    unfolding order by blast
  have session: "\<lparr>Target = ''10.0.0.1'', Port = 161, Community = ''public'',
                   Version = (case parse_version ''2c'' of Some v \<Rightarrow> v | None \<Rightarrow> Version2c),
                   Timeout = 2000, Retries = 2\<rparr> = ?g"
    by (simp add: parse_version_def lab_session_def)
  show ?thesis
    unfolding FetchSNMPData_fetcher_def session Let_def seq_Connect connects
    by (simp add: lab_system_strings seq_Returned after_pair deferred_close_pair str_index_def collected
          calls_def ret_def parse_digits_def is_digit_def digits_value_def in_int64_def)
qed

lemma healthy_walk:
  "walk_reply healthy ''.1.3.6.1.2.1.31.1.1.1.1'' =
     (map (\<lambda>i. \<lparr>Name = ''.1.3.6.1.2.1.31.1.1.1.1.'' @ i, Type = OctetString, Value = VBytes (''eth'' @ i)\<rparr>)
        [''1'', ''2'', ''3'', ''4'', ''5''], None)"
  by (simp add: lab_defs)

lemma healthy_facts:
  "connect_error healthy = None"
  "range_of SNMPOids (range_SNMPOids healthy)"
  "get_reply healthy (range_SNMPOids healthy) = Inr (map (lab_answer (VUint32 864005900)) (range_SNMPOids healthy))"
    apply (simp add: lab_defs)
   apply (simp add: range_of_def SNMPOids_def lab_defs, blast)
  apply (simp add: lab_defs)
  done

text \<open>
  C7 (corrected). The collector of \<^verbatim>\<open>src/snmp/snmpfetcher.go\<close> appends each record under a
  mutex as its goroutine finishes and never sorts, so the list is in completion order: with
  two interfaces and the second goroutine appending first, the list is 2, 1 (the
  counterexample). The collector of \<^verbatim>\<open>part_004\<close> is sequential. As amended, for
  \<^verbatim>\<open>FetchSNMPData\<close> of \<^verbatim>\<open>part_004\<close>, for every request and device such that

  \<^enum> the request passes \<^verbatim>\<open>ValidateRequest\<close>;
  \<^enum> its community is a string, and its version is one of the strings \<open>1\<close>, \<open>2\<close>, \<open>2c\<close>,
    \<open>3\<close>;
  \<^enum> the connect succeeds;
  \<^enum> the \<^verbatim>\<open>range\<close> over the system OID table yields each of its six OIDs once;
  \<^enum> the device answers the batched scalar get of these OIDs without error;
  \<^enum> the device answers no get, whatever OIDs it is asked (the scalar ones or those of an
    interface), with more variables than OIDs asked;
  \<^enum> the walk of the interface-name column \<open>.1.3.6.1.2.1.31.1.1.1.1\<close> delivers its
    variables and ends without error;
  \<^enum> in the name of every delivered variable the text after the last dot is read by
    \<^verbatim>\<open>strconv.Atoi\<close> as a number: these numbers, in the order of delivery, are the
    discovered indexes;
  \<^enum> the get of the OIDs of every discovered index is answered without error:

  the list under \<open>interfaces\<close> of the data has as many records as there are discovered
  indexes, and its \<open>i\<close>-th record carries the \<open>i\<close>-th discovered index, as decimal text,
  under \<open>index\<close>: one record per index, in the order of the enumeration.
\<close>

theorem records_follow_enumeration_order:
  assumes "ValidateRequest request = (True, reqData)"
    and "map_index request Community_key = VString community"
    and "map_index request Version_key = VString version"
    and "parse_version version = Some v"
    and "connect_error w = None"
    and "range_of SNMPOids (range_SNMPOids w)"
    and "get_reply w (range_SNMPOids w) = Inr variables"
    and "bounded_replies w"
    and "walk_reply w ''.1.3.6.1.2.1.31.1.1.1.1'' = (pdus, None)"
    and "map (\<lambda>pdu. Atoi (last (Split_dot (Name pdu)))) pdus = map Some indexes"
    and "list_all (fetch_ok w) indexes"
  shows "\<exists>records.
           data_field interfaces (FetchSNMPData w request) = Some (VList records) \<and>
           length records = length indexes \<and>
           map record_index records = map (\<lambda>i. VString (sprintf_d i)) indexes"
proof -
  from FetchSNMPData_walked [OF assms(1-10)] obtain g snmpData records where
    run: "FetchSNMPData w request =
             (NetConnect g # NetGet (range_SNMPOids w) # NetWalk ''.1.3.6.1.2.1.31.1.1.1.1'' #
                map (\<lambda>i. NetGet (interface_oids w i)) indexes @ [NetClose],
              Returned
                (map_store
                   (map_store reqData Data
                      (VMap (map_store
                               (map_store (system_data snmpData) systemInterfaces (VInt (int (length indexes))))
                               interfaces (VList records))))
                   Status (VString Success)))"
    and recs: "map record_index records = map (\<lambda>i. VString (sprintf_d i)) (filter (fetch_ok w) indexes)"
    by (elim exE conjE) (rule that)
  have all: "filter (fetch_ok w) indexes = indexes"
    using assms(11) by (simp add: list_all_iff)
  have order: "map record_index records = map (\<lambda>i. VString (sprintf_d i)) indexes"
    using recs unfolding all .
  then have "length (map record_index records) = length (map (\<lambda>i. VString (sprintf_d i)) indexes)"
    by simp
  then have "length records = length indexes"
    by simp
  moreover have "data_field interfaces (FetchSNMPData w request) = Some (VList records)"
    unfolding run response_data by (simp add: map_of_store)
  ultimately show ?thesis
    using order by blast
qed

theorem records_follow_enumeration_order_witness:
  "\<exists>records.
     data_field interfaces (FetchSNMPData healthy (lab_request ''2c'')) = Some (VList records) \<and>
     length records = 5 \<and>
     map record_index records = [VString ''1'', VString ''2'', VString ''3'', VString ''4'', VString ''5'']"
proof -
  have texts: "map (\<lambda>i. VString (sprintf_d i)) [1, 2, 3, 4, 5] =
                 [VString ''1'', VString ''2'', VString ''3'', VString ''4'', VString ''5'']"
    by (simp add: lib_defs)
  from records_follow_enumeration_order
          [OF lab_validates lab_community lab_version parse_version_2c healthy_facts healthy_bounded
              healthy_walk lab_indexes healthy_fetch_ok]
  show ?thesis
    unfolding texts by (simp add: eval_nat_numeral)
qed

theorem completion_order_counterexample:
  "schedule_of 2 (snmp_lock_order lab 2) \<and> schedule_of 2 (data_lock_order lab 2) \<and>
   GetInterfaces lab (lab_session 2000 2) 2 =
     ([NetGet (interface_oids lab 1), NetGet (interface_oids lab 2)],
      Returned ([VMap [(''Index'', VString ''2''), (''Name'', VString ''eth2'')],
                 VMap [(''Index'', VString ''1''), (''Name'', VString ''eth1'')]], None))"
proof -
  have upto: "[1..2] = [1, (2::int)]"
    by (simp add: upto_rec1)
  have 1: "getInterface_fetcher lab 1 (lab_session 2000 2) =
             ([NetGet (interface_oids lab 1)], Returned [(''Index'', VString ''1''), (''Name'', VString ''eth1'')])"
    unfolding lab_def
    by (simp add: getInterface_fetcher_def interface_oids_def InterfaceOids_def InterfaceOids_config_def
          run_defs map_defs lib_defs lab_device_def lab_answer_def lab_answers_def)
  have 2: "getInterface_fetcher lab 2 (lab_session 2000 2) =
             ([NetGet (interface_oids lab 2)], Returned [(''Index'', VString ''2''), (''Name'', VString ''eth2'')])"
    unfolding lab_def
    by (simp add: getInterface_fetcher_def interface_oids_def InterfaceOids_def InterfaceOids_config_def
          run_defs map_defs lib_defs lab_device_def lab_answer_def lab_answers_def)
  have orders: "snmp_lock_order lab 2 = [1, 2]" "data_lock_order lab 2 = [2, 1]"
    by (simp_all add: lab_defs upto)
  have "schedule_of 2 [1, 2]" "schedule_of 2 [2, 1]"
    by (auto simp: schedule_of_def upto)
  then show ?thesis
    by (simp add: GetInterfaces_def orders 1 2)
qed

lemma system_strings_positional:
  assumes "i + length variables \<le> length oidArray"
    and "distinct (map (str_index SNMPOids) oidArray)"
  shows "\<exists>snmpData'. system_strings w oidArray i variables snmpData = Returned snmpData' \<and>
           (\<forall>j<length variables.
              map_of snmpData' (str_index SNMPOids (oidArray ! (i + j))) = Some (system_string w (Value (variables ! j)))) \<and>
           (\<forall>key. (\<forall>j<length variables. str_index SNMPOids (oidArray ! (i + j)) \<noteq> key) \<longrightarrow>
              map_of snmpData' key = map_of snmpData key)"
  using assms(1)
proof (induction variables arbitrary: i snmpData)
  case Nil
  then show ?case by simp
next
  case (Cons variable rest)
  let ?key = "str_index SNMPOids (oidArray ! i)"
  let ?m = "AList.update ?key (system_string w (Value variable)) snmpData"
  have i: "i < length oidArray" and rest: "Suc i + length rest \<le> length oidArray"
    using Cons.prems by simp_all
  from Cons.IH [OF rest, of ?m] obtain snmpData' where
    run: "system_strings w oidArray (Suc i) rest ?m = Returned snmpData'"
    and pos: "\<forall>j<length rest. map_of snmpData' (str_index SNMPOids (oidArray ! (Suc i + j))) =
                 Some (system_string w (Value (rest ! j)))"
    and keep: "\<forall>key. (\<forall>j<length rest. str_index SNMPOids (oidArray ! (Suc i + j)) \<noteq> key) \<longrightarrow>
                 map_of snmpData' key = map_of ?m key"
    by (elim exE conjE) (rule that)
  have later: "\<forall>j<length rest. str_index SNMPOids (oidArray ! (Suc i + j)) \<noteq> ?key"
  proof (intro allI impI)
    fix j assume "j < length rest"
    then have "Suc i + j < length oidArray" using rest by simp
    with assms(2) i show "str_index SNMPOids (oidArray ! (Suc i + j)) \<noteq> ?key"
      by (simp add: distinct_conv_nth)
  qed
  have first: "map_of snmpData' ?key = Some (system_string w (Value variable))"
    using keep later by (simp add: update_conv')
  have "\<forall>j<length (variable # rest).
          map_of snmpData' (str_index SNMPOids (oidArray ! (i + j))) =
            Some (system_string w (Value ((variable # rest) ! j)))"
  proof (intro allI impI)
    fix j assume j: "j < length (variable # rest)"
    show "map_of snmpData' (str_index SNMPOids (oidArray ! (i + j))) =
            Some (system_string w (Value ((variable # rest) ! j)))"
    proof (cases j)
      case 0
      with first show ?thesis by simp
    next
      case (Suc j')
      with j pos show ?thesis by simp
    qed
  qed
  moreover have "\<forall>key. (\<forall>j<length (variable # rest). str_index SNMPOids (oidArray ! (i + j)) \<noteq> key) \<longrightarrow>
                   map_of snmpData' key = map_of snmpData key"
  proof (intro allI impI)
    fix key assume other: "\<forall>j<length (variable # rest). str_index SNMPOids (oidArray ! (i + j)) \<noteq> key"
    then have "?key \<noteq> key" by force
    moreover have "\<forall>j<length rest. str_index SNMPOids (oidArray ! (Suc i + j)) \<noteq> key"
      using other by force
    ultimately show "map_of snmpData' key = map_of snmpData key"
      using keep by (simp add: update_conv')
  qed
  ultimately show ?case
    using run i by simp
qed

lemma FetchSNMPSystemData_fetched:
  assumes "range_of SNMPOids (range_SNMPOids w)"
    and "get_reply w (range_SNMPOids w) = Inr variables"
    and "length variables \<le> length (range_SNMPOids w)"
  shows "\<exists>snmpData. FetchSNMPSystemData w g = ([NetGet (range_SNMPOids w)], Returned (Inr snmpData)) \<and>
           (\<forall>i<length variables.
              map_of snmpData (str_index SNMPOids (range_SNMPOids w ! i)) = Some (system_string w (Value (variables ! i))))"
proof -
  have "set (range_SNMPOids w) \<noteq> {}"
    using assms(1) by (simp add: range_of_def SNMPOids_def)
  then have "range_SNMPOids w \<noteq> []"
    by auto
  moreover have "0 + length variables \<le> length (range_SNMPOids w)"
    using assms(3) by simp
  from system_strings_positional [OF this field_names_distinct [OF assms(1)], of w "[]"]
  obtain snmpData where "system_strings w (range_SNMPOids w) 0 variables [] = Returned snmpData"
    "\<forall>i<length variables.
       map_of snmpData (str_index SNMPOids (range_SNMPOids w ! i)) = Some (system_string w (Value (variables ! i)))"
    by auto
  ultimately show ?thesis
    using assms(2) by (simp add: FetchSNMPSystemData_def Let_def seq_def Get_def lift_def ret_def)
qed

text \<open>
  C8 (corrected). Both fetchers read \<^verbatim>\<open>oidArray[i]\<close> for every variable of the answer, so an
  answer with more variables than OIDs were sent makes them panic: on the device that
  answers the six OIDs with seven variables, both end in an index out of range after the
  get and return no mapping (the counterexample). As amended, for \<^verbatim>\<open>fetchSNMPSystemData\<close>
  of \<^verbatim>\<open>part_004\<close> and \<^verbatim>\<open>FetchSNMPSystemData\<close> of \<^verbatim>\<open>src/snmp/snmpfetcher.go\<close>, for every
  session and device such that

  \<^enum> the \<^verbatim>\<open>range\<close> over the system OID table yields each of its six OIDs once (in any
    order);
  \<^enum> the device answers the batched get of these OIDs without error;
  \<^enum> the answer has at most as many variables as OIDs were sent:

  the fetcher makes the one get of the OIDs in the order of the \<^verbatim>\<open>range\<close> and returns a map
  in which, for every position \<open>i\<close> of the answer, the value of the \<open>i\<close>-th variable (decoded
  by its shape) is stored under the field name that the table maps from the \<open>i\<close>-th OID
  sent; nothing is reordered. In particular six values for the six-entry table go to their
  six field names.
\<close>

theorem scalar_fetch_is_positional:
  assumes "range_of SNMPOids (range_SNMPOids w)"
    and "get_reply w (range_SNMPOids w) = Inr variables"
    and "length variables \<le> length (range_SNMPOids w)"
  shows "(\<exists>snmpData. fetchSNMPSystemData w g = ([NetGet (range_SNMPOids w)], Returned (Inr snmpData)) \<and>
            (\<forall>i<length variables.
               map_of snmpData (str_index SNMPOids (range_SNMPOids w ! i)) =
                 Some (scalar_value (Value (variables ! i))))) \<and>
         (\<exists>snmpData. FetchSNMPSystemData w g = ([NetGet (range_SNMPOids w)], Returned (Inr snmpData)) \<and>
            (\<forall>i<length variables.
               map_of snmpData (str_index SNMPOids (range_SNMPOids w ! i)) =
                 Some (system_string w (Value (variables ! i)))))"
proof
  from fetchSNMPSystemData_fetched [OF assms, of g]
  show "\<exists>snmpData. fetchSNMPSystemData w g = ([NetGet (range_SNMPOids w)], Returned (Inr snmpData)) \<and>
            (\<forall>i<length variables.
               map_of snmpData (str_index SNMPOids (range_SNMPOids w ! i)) =
                 Some (scalar_value (Value (variables ! i))))"
    by (elim exE conjE) (intro exI conjI)
next
  from FetchSNMPSystemData_fetched [OF assms, of g]
  show "\<exists>snmpData. FetchSNMPSystemData w g = ([NetGet (range_SNMPOids w)], Returned (Inr snmpData)) \<and>
            (\<forall>i<length variables.
               map_of snmpData (str_index SNMPOids (range_SNMPOids w ! i)) =
                 Some (system_string w (Value (variables ! i))))" .
qed

theorem scalar_fetch_is_positional_witness:
  "\<exists>snmpData.
     fetchSNMPSystemData lab (lab_session 500 1) =
       ([NetGet [''1.3.6.1.2.1.1.3.0'', ''1.3.6.1.2.1.1.5.0'', ''1.3.6.1.2.1.2.1.0'',
                 ''1.3.6.1.2.1.1.1.0'', ''1.3.6.1.2.1.1.6.0'', ''1.3.6.1.2.1.1.2.0'']],
        Returned (Inr snmpData)) \<and>
     map_of snmpData systemUptime = Some (VUint32 864005900) \<and>
     map_of snmpData systemName = Some (VString ''core-sw1'') \<and>
     map_of snmpData systemInterfaces = Some (VInt 5) \<and>
     map_of snmpData systemDescription = Some (VString ''edge switch'') \<and>
     map_of snmpData systemLocation = Some (VString ''rack 4'') \<and>
     map_of snmpData systemObjectID = Some (VString ''.1.3.6.1.4.1.9.1.1'')"
proof -
  let ?w = "lab_device (VUint32 864005900)"
  let ?vars = "map (lab_answer (VUint32 864005900)) (range_SNMPOids ?w)"
  have len: "length ?vars \<le> length (range_SNMPOids ?w)"
    by simp
  from scalar_fetch_is_positional [OF lab_range lab_system_get len, of "lab_session 500 1"]
  obtain snmpData where
    run: "fetchSNMPSystemData ?w (lab_session 500 1) = ([NetGet (range_SNMPOids ?w)], Returned (Inr snmpData))"
    and pos: "\<forall>i<length ?vars. map_of snmpData (str_index SNMPOids (range_SNMPOids ?w ! i)) =
                 Some (scalar_value (Value (?vars ! i)))"
    by (elim exE conjE) (rule that)
  have six: "length ?vars = 6" and order: "range_SNMPOids ?w =
      [''1.3.6.1.2.1.1.3.0'', ''1.3.6.1.2.1.1.5.0'', ''1.3.6.1.2.1.2.1.0'',
       ''1.3.6.1.2.1.1.1.0'', ''1.3.6.1.2.1.1.6.0'', ''1.3.6.1.2.1.1.2.0'']"
    by (simp_all add: lab_device_def)
  have at: "map_of snmpData (str_index SNMPOids (range_SNMPOids ?w ! i)) = Some (scalar_value (Value (?vars ! i)))"
    if "i < 6" for i
    using pos that unfolding six by blast
  have "map_of snmpData systemUptime = Some (VUint32 864005900)"
    using at [of 0] by (simp add: order str_index_def SNMPOids_def scalar_value_def lab_answer_def lab_answers_def)
  moreover have "map_of snmpData systemName = Some (VString ''core-sw1'')"
    using at [of 1] by (simp add: order str_index_def SNMPOids_def scalar_value_def lab_answer_def lab_answers_def)
  moreover have "map_of snmpData systemInterfaces = Some (VInt 5)"
    using at [of 2] by (simp add: order str_index_def SNMPOids_def scalar_value_def lab_answer_def lab_answers_def)
  moreover have "map_of snmpData systemDescription = Some (VString ''edge switch'')"
    using at [of 3] by (simp add: order str_index_def SNMPOids_def scalar_value_def lab_answer_def lab_answers_def)
  moreover have "map_of snmpData systemLocation = Some (VString ''rack 4'')"
    using at [of 4] by (simp add: order str_index_def SNMPOids_def scalar_value_def lab_answer_def lab_answers_def)
  moreover have "map_of snmpData systemObjectID = Some (VString ''.1.3.6.1.4.1.9.1.1'')"
    using at [of 5] by (simp add: order str_index_def SNMPOids_def scalar_value_def lab_answer_def lab_answers_def)
  ultimately show ?thesis
    using run unfolding lab_def order by blast
qed

theorem scalar_fetch_overlong_answer_counterexample:
  "get_reply chatty (range_SNMPOids chatty) =
     Inr (map (lab_answer (VUint32 864005900)) (range_SNMPOids chatty)
          @ [\<lparr>Name = ''1.3.6.1.2.1.1.7.0'', Type = Integer, Value = VInt 72\<rparr>]) \<and>
   length (range_SNMPOids chatty) = 6 \<and>
   fetchSNMPSystemData chatty (lab_session 500 1) =
     ([NetGet (range_SNMPOids chatty)], Panicked ''index out of range'') \<and>
   FetchSNMPSystemData chatty (lab_session 2000 2) =
     ([NetGet (range_SNMPOids chatty)], Panicked ''index out of range'')"
  by (simp add: fetchSNMPSystemData_def FetchSNMPSystemData_def system_string_def sprintf_v_def
        scalar_value_def SNMPOids_def run_defs map_defs lib_defs lab_defs)

lemma parse_version_unsupported:
  "version \<notin> {''1'', ''2'', ''2c'', ''3''} \<Longrightarrow> parse_version version = None"
  by (simp add: parse_version_def)

lemma fail_with_fields:
  "map_of (fail_with m msg) Status = Some (VString Fail)"
  "map_of (fail_with m msg) Errors = Some (VString msg)"
  by (simp_all add: fail_with_def map_of_store)

lemma FetchSNMPData_unsupported:
  assumes "ValidateRequest request = (True, reqData)"
    and "map_index request Community_key = VString community"
    and "map_index request Version_key = VString version"
    and "parse_version version = None"
  shows "FetchSNMPData w request = ([], Returned (fail_with reqData UnsupportedSNMP))"
proof -
  from ValidateRequest_passed [OF assms(1)] obtain ip where
    ip: "map_index reqData IP = VString ip"
    and keep: "\<forall>k. k \<noteq> Port_key \<longrightarrow> map_of reqData k = map_of request k"
    by (elim exE conjE) (rule that)
  have "map_index reqData Community_key = VString community"
    and "map_index reqData Version_key = VString version"
    using keep assms(2,3) by (simp_all add: map_index_def)
  with ip assms(1,4) show ?thesis
    by (simp add: FetchSNMPData_def ret_def)
qed

lemma Discovery_unsupported:
  assumes "map_index request PluginType = VString SNMPPlugin"
    and "map_index request IP = VString ip"
    and "map_index request Port_key = VFloat64 port"
    and "map_index request Community_key = VString community"
    and "map_index request Version_key = VString version"
    and "parse_version version = None"
  shows "Discovery w request = ([], Returned (fail_with request UnsupportedSNMP))"
  using assms by (simp add: Discovery_def ret_def)

text \<open>
  C1 (corrected). The pipeline of \<^verbatim>\<open>src/snmp/snmpfetcher.go\<close> replaces an unknown version by
  version 2c: asked for version \<open>4\<close>, it connects with version 2c and sends the scalar get
  (the counterexample). As amended, for the pipelines on the request map,
  \<^verbatim>\<open>FetchSNMPData\<close> of \<^verbatim>\<open>part_004\<close> and \<^verbatim>\<open>Discovery\<close> of the second file of
  \<^verbatim>\<open>part_003\<close>: for every request whose community and version are strings and whose
  version is none of \<open>1\<close>, \<open>2\<close>, \<open>2c\<close>, \<open>3\<close>,

  \<^enum> if the request passes \<^verbatim>\<open>ValidateRequest\<close>, then \<^verbatim>\<open>FetchSNMPData\<close> returns the
    validated request with status \<open>fail\<close> and the error \<open>unsupported SNMP version\<close>, and
    makes no call on the device: no connect, get, walk or close;
  \<^enum> if the plugin type of the request is \<open>snmp\<close>, its ip is a string and its port is a
    number, then \<^verbatim>\<open>Discovery\<close> returns the request with status \<open>fail\<close> and the error
    \<open>unsupported SNMP version\<close>, and makes no call on the device.
\<close>

theorem unsupported_version_rejected:
  assumes "version \<notin> {''1'', ''2'', ''2c'', ''3''}"
    and "map_index request Community_key = VString community"
    and "map_index request Version_key = VString version"
  shows "(ValidateRequest request = (True, reqData) \<longrightarrow>
            FetchSNMPData w request = ([], Returned (fail_with reqData UnsupportedSNMP))) \<and>
         (map_index request PluginType = VString SNMPPlugin \<and> map_index request IP = VString ip \<and>
          map_index request Port_key = VFloat64 port \<longrightarrow>
            Discovery w request = ([], Returned (fail_with request UnsupportedSNMP))) \<and>
         map_of (fail_with m UnsupportedSNMP) Status = Some (VString Fail) \<and>
         map_of (fail_with m UnsupportedSNMP) Errors = Some (VString UnsupportedSNMP)"
  using FetchSNMPData_unsupported [OF _ assms(2,3) parse_version_unsupported [OF assms(1)]]
    Discovery_unsupported [OF _ _ _ assms(2,3) parse_version_unsupported [OF assms(1)]]
  by (simp add: fail_with_fields)

theorem unsupported_version_rejected_witness:
  "FetchSNMPData lab (lab_request ''4'') = ([], Returned (fail_with (lab_validated ''4'') UnsupportedSNMP)) \<and>
   Discovery lab (lab_request ''4'') = ([], Returned (fail_with (lab_request ''4'') UnsupportedSNMP)) \<and>
   map_of (fail_with (lab_request ''4'') UnsupportedSNMP) Status = Some (VString Fail) \<and>
   map_of (fail_with (lab_request ''4'') UnsupportedSNMP) Errors = Some (VString UnsupportedSNMP)"
proof -
  have four: "''4'' \<notin> {''1'', ''2'', ''2c'', ''3''}"
    by simp
  have fields: "map_index (lab_request ''4'') PluginType = VString SNMPPlugin"
    "map_index (lab_request ''4'') IP = VString ''10.0.0.1''"
    "map_index (lab_request ''4'') Port_key = VFloat64 161"
    by (simp_all add: lab_request_def map_index_def)
  from unsupported_version_rejected [OF four lab_community lab_version,
         of "lab_validated ''4''" lab "''10.0.0.1''" 161 "lab_request ''4''"]
  show ?thesis
    using lab_validates [of "''4''"] fields by simp
qed

theorem unsupported_version_counterexample:
  "FetchSNMPData_fetcher silent ''10.0.0.1'' ''public'' ''4'' =
     ([NetConnect (lab_session 2000 2), NetGet (range_SNMPOids lab), NetClose],
      Returned [(''error'', VString ''Error fetching SNMP system data: request timeout'')])"
  by (simp add: FetchSNMPData_fetcher_def FetchSNMPSystemData_def run_defs map_defs lib_defs lab_defs)

lemma fetchSNMPSystemData_failed:
  "range_SNMPOids w \<noteq> [] \<Longrightarrow> get_reply w (range_SNMPOids w) = Inl err \<Longrightarrow>
   fetchSNMPSystemData w g = ([NetGet (range_SNMPOids w)], Returned (Inl err))"
  by (simp add: fetchSNMPSystemData_def Let_def seq_def Get_def ret_def)

lemma FetchSNMPData_fetch_failed:
  assumes "ValidateRequest request = (True, reqData)"
    and "map_index request Community_key = VString community"
    and "map_index request Version_key = VString version"
    and "parse_version version = Some v"
    and "connect_error w = None"
    and "range_SNMPOids w \<noteq> []"
    and "get_reply w (range_SNMPOids w) = Inl err"
  shows "\<exists>g. FetchSNMPData w request =
           ([NetConnect g, NetGet (range_SNMPOids w), NetClose],
            Returned (map_store
                        (map_store reqData Data (VMap [(Errors, VString SNMPConnectFail), (Message, VString err)]))
                        Status (VString Success)))"
proof -
  from FetchSNMPData_connected [OF assms(1-5)] obtain g where
    run: "FetchSNMPData w request =
           after [NetConnect g]
             (deferred_close
                (seq (fetchSNMPSystemData w g) (\<lambda>r.
                   case r of
                     Inl e \<Rightarrow>
                       ret (map_store
                              (map_store reqData Data (VMap [(Errors, VString SNMPConnectFail), (Message, VString e)]))
                              Status (VString Success))
                   | Inr systemData \<Rightarrow>
                       seq (interface_data w g (system_data systemData)) (\<lambda>data.
                         ret (map_store (map_store reqData Data (VMap data)) Status (VString Success))))))"
    by (elim exE) (rule that)
  show ?thesis
    by (intro exI [of _ g])
       (simp add: run fetchSNMPSystemData_failed [OF assms(6,7)] seq_def after_def deferred_close_def ret_def)
qed

lemma FetchSNMPData_connect_failed:
  assumes "ValidateRequest request = (True, reqData)"
    and "map_index request Community_key = VString community"
    and "map_index request Version_key = VString version"
    and "parse_version version = Some v"
    and "connect_error w = Some err"
  shows "\<exists>g. FetchSNMPData w request =
           ([NetConnect g],
            Returned (map_store
                        (map_store reqData Data (VMap [(Errors, VString SNMPConnectFail), (Message, VString err)]))
                        Status (VString Fail)))"
proof -
  from ValidateRequest_passed [OF assms(1)] obtain ip where
    ip: "map_index reqData IP = VString ip"
    and keep: "\<forall>k. k \<noteq> Port_key \<longrightarrow> map_of reqData k = map_of request k"
    by (elim exE conjE) (rule that)
  have "map_index reqData Community_key = VString community"
    and "map_index reqData Version_key = VString version"
    using keep assms(2,3) by (simp_all add: map_index_def)
  with ip assms(1,4,5) show ?thesis
    by (intro exI [of _ "\<lparr>Target = ip, Port = 161, Community = community, Version = v,
                           Timeout = 500, Retries = 1\<rparr>"])
       (simp add: FetchSNMPData_def seq_Connect Let_def after_def ret_def del: One_nat_def)
qed

text \<open>
  C2 (code defect). The claim: the status is \<open>success\<close> or \<open>fail\<close>, an error never goes with
  \<open>success\<close> and a data payload never goes with \<open>fail\<close>. In \<^verbatim>\<open>FetchSNMPData\<close> of
  \<^verbatim>\<open>part_004\<close> (and of \<^verbatim>\<open>part_005\<close>) a failed scalar fetch stores the error
  \<open>SNMP connection failed\<close> with its message under \<open>data\<close> and sets the status to
  \<open>success\<close>; the connect failure just above stores the same payload under \<open>data\<close> with
  the status \<open>fail\<close>. The theorem states what the code does on these two paths, for every
  job that passes validation and names a supported version.
\<close>

theorem scalar_fetch_error_reported_as_success:
  assumes "ValidateRequest request = (True, reqData)"
    and "map_index request Community_key = VString community"
    and "map_index request Version_key = VString version"
    and "parse_version version = Some v"
  shows "(connect_error w = None \<and> range_SNMPOids w \<noteq> [] \<and> get_reply w (range_SNMPOids w) = Inl err \<longrightarrow>
            response_field Status (FetchSNMPData w request) = Some (VString Success) \<and>
            response_field Data (FetchSNMPData w request) =
              Some (VMap [(Errors, VString SNMPConnectFail), (Message, VString err)])) \<and>
         (connect_error w = Some err \<longrightarrow>
            response_field Status (FetchSNMPData w request) = Some (VString Fail) \<and>
            response_field Data (FetchSNMPData w request) =
              Some (VMap [(Errors, VString SNMPConnectFail), (Message, VString err)]))"
proof (intro conjI impI)
  assume a: "connect_error w = None \<and> range_SNMPOids w \<noteq> [] \<and> get_reply w (range_SNMPOids w) = Inl err"
  from a FetchSNMPData_fetch_failed [OF assms, of w err] obtain g where
    run: "FetchSNMPData w request =
           ([NetConnect g, NetGet (range_SNMPOids w), NetClose],
            Returned (map_store
                        (map_store reqData Data (VMap [(Errors, VString SNMPConnectFail), (Message, VString err)]))
                        Status (VString Success)))"
    by blast
  show "response_field Status (FetchSNMPData w request) = Some (VString Success)"
    unfolding run by (rule response_status)
  show "response_field Data (FetchSNMPData w request) =
          Some (VMap [(Errors, VString SNMPConnectFail), (Message, VString err)])"
    unfolding run by (simp add: response_field_def map_of_store)
next
  assume a: "connect_error w = Some err"
  from FetchSNMPData_connect_failed [OF assms a] obtain g where
    run: "FetchSNMPData w request =
           ([NetConnect g],
            Returned (map_store
                        (map_store reqData Data (VMap [(Errors, VString SNMPConnectFail), (Message, VString err)]))
                        Status (VString Fail)))"
    by blast
  show "response_field Status (FetchSNMPData w request) = Some (VString Fail)"
    unfolding run by (rule response_status)
  show "response_field Data (FetchSNMPData w request) =
          Some (VMap [(Errors, VString SNMPConnectFail), (Message, VString err)])"
    unfolding run by (simp add: response_field_def map_of_store)
qed

theorem scalar_fetch_error_reported_as_success_witness:
  "response_field Status (FetchSNMPData silent (lab_request ''2c'')) = Some (VString Success) \<and>
   response_field Data (FetchSNMPData silent (lab_request ''2c'')) =
     Some (VMap [(Errors, VString SNMPConnectFail), (Message, VString ''request timeout'')]) \<and>
   response_field Status (FetchSNMPData unreachable (lab_request ''2c'')) = Some (VString Fail) \<and>
   response_field Data (FetchSNMPData unreachable (lab_request ''2c'')) =
     Some (VMap [(Errors, VString SNMPConnectFail), (Message, VString ''dial udp: network is unreachable'')])"
proof -
  have s: "connect_error silent = None \<and> range_SNMPOids silent \<noteq> [] \<and>
           get_reply silent (range_SNMPOids silent) = Inl ''request timeout''"
    by (simp add: lab_defs)
  have u: "connect_error unreachable = Some ''dial udp: network is unreachable''"
    by (simp add: lab_defs)
  from scalar_fetch_error_reported_as_success
         [OF lab_validates lab_community lab_version parse_version_2c, of silent "''request timeout''"]
       scalar_fetch_error_reported_as_success
         [OF lab_validates lab_community lab_version parse_version_2c, of unreachable
            "''dial udp: network is unreachable''"]
       s u
  show ?thesis
    by simp
qed

lemma ValidateRequest_3_meaning:
  "ValidateRequest_3 reqData \<longleftrightarrow>
     list_all (\<lambda>field. case map_of reqData field of None \<Rightarrow> False | Some v \<Rightarrow> v \<noteq> VString [])
       [IP, PluginType, ''requestID'']"
  by (auto simp: ValidateRequest_3_def split: option.splits)

lemma FetchSNMPData_part5_connects:
  assumes "\<not> ValidateRequest_3 reqData"
    and "map_index reqData IP = VString ip"
    and "map_index reqData Community_key = VString community"
    and "map_index reqData Version_key = VString version"
    and "parse_version version = Some v"
  shows "\<exists>g rest r. FetchSNMPData_part5 w reqData = (NetConnect g # rest, r)"
  using assms
  by (simp add: FetchSNMPData_part5_def Let_def seq_Connect after_def split: prod.splits)

text \<open>
  C3 (code defect). \<^verbatim>\<open>ValidateRequest\<close> answers true when every required field is present
  and not empty. \<^verbatim>\<open>FetchSNMPData\<close> of \<^verbatim>\<open>part_005\<close> rejects the request when the answer
  is true (\<^verbatim>\<open>if ValidateRequest(reqData)\<close>; \<^verbatim>\<open>part_004\<close> has
  \<^verbatim>\<open>if !ValidateRequest(reqData)\<close>). So there every request with all required fields is
  answered \<open>field missing\<close>, and a request that lacks one goes on to the device as soon as
  its ip, community and version are strings and the version is supported.
\<close>

theorem part5_validation_inverted:
  "(list_all (\<lambda>field. case map_of reqData field of None \<Rightarrow> False | Some v \<Rightarrow> v \<noteq> VString [])
      [IP, PluginType, ''requestID''] \<longrightarrow>
      FetchSNMPData_part5 w reqData = ([], Returned (fail_with reqData FieldMissing))) \<and>
   (\<not> list_all (\<lambda>field. case map_of reqData field of None \<Rightarrow> False | Some v \<Rightarrow> v \<noteq> VString [])
        [IP, PluginType, ''requestID''] \<and>
    map_index reqData IP = VString ip \<and> map_index reqData Community_key = VString community \<and>
    map_index reqData Version_key = VString version \<and> parse_version version = Some v \<longrightarrow>
      (\<exists>g rest r. FetchSNMPData_part5 w reqData = (NetConnect g # rest, r)))"
proof (intro conjI impI)
  assume "list_all (\<lambda>field. case map_of reqData field of None \<Rightarrow> False | Some v \<Rightarrow> v \<noteq> VString [])
            [IP, PluginType, ''requestID'']"
  then have "ValidateRequest_3 reqData"
    using ValidateRequest_3_meaning [of reqData] by blast
  then show "FetchSNMPData_part5 w reqData = ([], Returned (fail_with reqData FieldMissing))"
    by (simp add: FetchSNMPData_part5_def ret_def)
next
  assume a: "\<not> list_all (\<lambda>field. case map_of reqData field of None \<Rightarrow> False | Some v \<Rightarrow> v \<noteq> VString [])
                 [IP, PluginType, ''requestID''] \<and>
             map_index reqData IP = VString ip \<and> map_index reqData Community_key = VString community \<and>
             map_index reqData Version_key = VString version \<and> parse_version version = Some v"
  then have "\<not> ValidateRequest_3 reqData"
    using ValidateRequest_3_meaning [of reqData] by blast
  with a show "\<exists>g rest r. FetchSNMPData_part5 w reqData = (NetConnect g # rest, r)"
    using FetchSNMPData_part5_connects by blast
qed

theorem part5_validation_inverted_witness:
  "FetchSNMPData_part5 lab (lab_request ''2c'') = ([], Returned (fail_with (lab_request ''2c'') FieldMissing)) \<and>
   (\<exists>g rest r. FetchSNMPData_part5 lab anonymous_request = (NetConnect g # rest, r))"
proof -
  have complete: "list_all (\<lambda>field. case map_of (lab_request ''2c'') field of None \<Rightarrow> False | Some v \<Rightarrow> v \<noteq> VString [])
                    [IP, PluginType, ''requestID'']"
    by (simp add: lab_request_def)
  have incomplete: "\<not> list_all (\<lambda>field. case map_of anonymous_request field of None \<Rightarrow> False | Some v \<Rightarrow> v \<noteq> VString [])
                        [IP, PluginType, ''requestID''] \<and>
      map_index anonymous_request IP = VString ''10.0.0.1'' \<and>
      map_index anonymous_request Community_key = VString ''public'' \<and>
      map_index anonymous_request Version_key = VString ''2c'' \<and> parse_version ''2c'' = Some Version2c"
    by (simp add: anonymous_request_def map_index_def parse_version_def)
  from part5_validation_inverted [of "lab_request ''2c''" lab] complete
  have "FetchSNMPData_part5 lab (lab_request ''2c'') = ([], Returned (fail_with (lab_request ''2c'') FieldMissing))"
    by blast
  moreover from part5_validation_inverted
                  [of anonymous_request lab "''10.0.0.1''" "''public''" "''2c''" Version2c] incomplete
  have "\<exists>g rest r. FetchSNMPData_part5 lab anonymous_request = (NetConnect g # rest, r)"
    by blast
  ultimately show ?thesis
    by blast
qed

lemma first_octet_string_typed:
  "list_all (\<lambda>variable. Type variable \<noteq> OctetString \<or> as_bytes (Value variable) \<noteq> None) variables \<Longrightarrow>
   \<exists>r. first_octet_string variables = Returned r"
  by (induction variables) auto

lemma typed_repliesD:
  "typed_replies w \<Longrightarrow> get_reply w oids = Inr variables \<Longrightarrow>
   list_all (\<lambda>variable. Type variable \<noteq> OctetString \<or> as_bytes (Value variable) \<noteq> None) variables"
  by (auto simp: typed_replies_def)

lemma Discovery_args_cases:
  assumes "typed_replies w"
  shows "\<exists>cs. Discovery_args w ip community version = (cs, Returned discovery_fail) \<or>
              (\<exists>name. Discovery_args w ip community version =
                 (cs, Returned [(''status'', VString ''success''), (''systemName'', VString name)]))"
proof (cases "connect_error w")
  case (Some e)
  then have "\<exists>cs. Discovery_args w ip community version = (cs, Returned discovery_fail)"
    by (simp add: Discovery_args_def Let_def seq_Connect after_def ret_def)
  then show ?thesis
    by blast
next
  case None
  show ?thesis
  proof (cases "get_reply w [''1.3.6.1.2.1.1.5.0'']")
    case (Inl e)
    with None have "\<exists>cs. Discovery_args w ip community version = (cs, Returned discovery_fail)"
      by (simp add: Discovery_args_def Let_def seq_Connect run_defs)
    then show ?thesis
      by blast
  next
    case (Inr variables)
    from first_octet_string_typed [OF typed_repliesD [OF assms Inr]] obtain r where
      r: "first_octet_string variables = Returned r"
      by blast
    show ?thesis
    proof (cases r)
      case None
      with \<open>connect_error w = None\<close> Inr r
      have "\<exists>cs. Discovery_args w ip community version = (cs, Returned discovery_fail)"
        by (simp add: Discovery_args_def Let_def seq_Connect run_defs)
      then show ?thesis
        by blast
    next
      case (Some name)
      with \<open>connect_error w = None\<close> Inr r
      have "\<exists>cs. Discovery_args w ip community version =
                   (cs, Returned [(''status'', VString ''success''), (''systemName'', VString name)])"
        by (simp add: Discovery_args_def Let_def seq_Connect run_defs)
      then show ?thesis
        by blast
    qed
  qed
qed

text \<open>
  C10 (confirmed). For all three strings and every device (whose \<^verbatim>\<open>OctetString\<close>
  variables carry a \<^verbatim>\<open>[]byte\<close>, as the protocol library decodes them), \<^verbatim>\<open>Discovery\<close> of
  \<^verbatim>\<open>src/src/plugin/snmp/discovery.go\<close> returns a map with both keys \<open>status\<close> and
  \<open>systemName\<close>; the status is \<open>success\<close> or \<open>fail\<close>; and with status \<open>fail\<close> the system
  name is the empty string.
\<close>

theorem discovery_result_shape:
  assumes "typed_replies w"
  shows "\<exists>cs m. Discovery_args w ip community version = (cs, Returned m) \<and>
           (map_of m ''status'' = Some (VString ''success'') \<or> map_of m ''status'' = Some (VString ''fail'')) \<and>
           (\<exists>name. map_of m ''systemName'' = Some (VString name)) \<and>
           (map_of m ''status'' = Some (VString ''fail'') \<longrightarrow> map_of m ''systemName'' = Some (VString []))"
proof -
  from Discovery_args_cases [OF assms, of ip community version] obtain cs where
    "Discovery_args w ip community version = (cs, Returned discovery_fail) \<or>
       (\<exists>name. Discovery_args w ip community version =
          (cs, Returned [(''status'', VString ''success''), (''systemName'', VString name)]))"
    by blast
  then show ?thesis
  proof
    assume "Discovery_args w ip community version = (cs, Returned discovery_fail)"
    then show ?thesis
      by (simp add: discovery_fail_def)
  next
    assume "\<exists>name. Discovery_args w ip community version =
              (cs, Returned [(''status'', VString ''success''), (''systemName'', VString name)])"
    then show ?thesis
      by auto
  qed
qed

theorem discovery_result_shape_witness:
  "(\<exists>cs m. Discovery_args lab ''10.0.0.1'' ''public'' ''4'' = (cs, Returned m) \<and>
            (map_of m ''status'' = Some (VString ''success'') \<or> map_of m ''status'' = Some (VString ''fail'')) \<and>
            (\<exists>name. map_of m ''systemName'' = Some (VString name))) \<and>
   (\<exists>cs m. Discovery_args unreachable ''10.0.0.1'' ''public'' ''2c'' = (cs, Returned m) \<and>
            map_of m ''status'' = Some (VString ''fail'') \<and> map_of m ''systemName'' = Some (VString []))"
proof -
  have typed: "typed_replies lab"
    unfolding lab_def by (rule lab_typed)
  then have typed': "typed_replies unreachable"
    by (simp add: typed_replies_def unreachable_def)
  from discovery_result_shape [OF typed, of "''10.0.0.1''" "''public''" "''4''"]
  have "\<exists>cs m. Discovery_args lab ''10.0.0.1'' ''public'' ''4'' = (cs, Returned m) \<and>
            (map_of m ''status'' = Some (VString ''success'') \<or> map_of m ''status'' = Some (VString ''fail'')) \<and>
            (\<exists>name. map_of m ''systemName'' = Some (VString name))"
    by blast
  moreover have refused: "snd (Discovery_args unreachable ''10.0.0.1'' ''public'' ''2c'') = Returned discovery_fail"
    by (simp add: Discovery_args_def Let_def seq_Connect after_def ret_def lab_defs)
  from discovery_result_shape [OF typed', of "''10.0.0.1''" "''public''" "''2c''"] obtain cs m where
    run: "Discovery_args unreachable ''10.0.0.1'' ''public'' ''2c'' = (cs, Returned m)"
    and empty: "map_of m ''status'' = Some (VString ''fail'') \<longrightarrow> map_of m ''systemName'' = Some (VString [])"
    by blast
  from run refused have "map_of m ''status'' = Some (VString ''fail'')"
    by (simp add: discovery_fail_def)
  with run empty
  have "\<exists>cs m. Discovery_args unreachable ''10.0.0.1'' ''public'' ''2c'' = (cs, Returned m) \<and>
            map_of m ''status'' = Some (VString ''fail'') \<and> map_of m ''systemName'' = Some (VString [])"
    by blast
  ultimately show ?thesis
    by blast
qed

section \<open>Further observations on the request-map pipelines\<close>

text \<open>
  \<^verbatim>\<open>ValidateRequest\<close> does not look at the community or the version. A request that
  passes it without a community makes \<^verbatim>\<open>FetchSNMPData\<close> of \<^verbatim>\<open>part_004\<close> panic at the
  assertion \<^verbatim>\<open>reqData[Community].(string)\<close>, before any call on the device.
\<close>

lemma community_is_not_validated:
  "FetchSNMPData w
     [(''requestId'', VString ''42''), (''pluginType'', VString ''snmp''), (''ip'', VString ''10.0.0.1''),
      (''port'', VFloat64 161), (''version'', VString ''2c'')] =
     ([], Panicked ''interface conversion: community is not a string'')"
  by (simp add: FetchSNMPData_def ValidateRequest_def panic_def map_defs lib_defs)

text \<open>The two decodings of a physical address.\<close>

lemma format_mac_example:
  "format_mac [CHR 0xAA, CHR 0xBB, CHR 0xCC, CHR 0x00, CHR 0x11, CHR 0x22] = ''AA:BB:CC:00:11:22''"
  "format_mac_part5 [CHR 0xAA, CHR 0xBB, CHR 0xCC, CHR 0x00, CHR 0x11, CHR 0x22] = ''AA BB CC 00 11 22''"
  by (simp_all add: format_mac_def format_mac_part5_def EncodeToString_def ToUpper_def upper_char_def hex_char_def
        slice_def TrimSpace_def ascii_space_def space2_def space3_def)


section \<open>The pipelines that take the three strings\<close>

text \<open>
  \<^verbatim>\<open>FetchSNMPData\<close> of \<^verbatim>\<open>src/snmp/snmpfetcher.go\<close> and \<^verbatim>\<open>Discovery\<close> of
  \<^verbatim>\<open>src/src/plugin/snmp/discovery.go\<close> replace a version that is none of \<open>1\<close>, \<open>2\<close>,
  \<open>2c\<close>, \<open>3\<close> by version 2c, and their first call is the connect with that version.
\<close>

lemma FetchSNMPData_fetcher_defaults:
  assumes "parse_version version = None"
  shows "\<exists>rest r. FetchSNMPData_fetcher w ip community version =
           (NetConnect \<lparr>Target = ip, Port = 161, Community = community, Version = Version2c,
                        Timeout = 2000, Retries = 2\<rparr> # rest, r)"
  using assms
  by (simp add: FetchSNMPData_fetcher_def Let_def seq_Connect after_def split: option.split prod.split)

lemma Discovery_args_defaults:
  assumes "parse_version version = None"
  shows "\<exists>rest r. Discovery_args w ip community version =
           (NetConnect \<lparr>Target = ip, Port = 161, Community = community, Version = Version2c,
                        Timeout = 2000, Retries = 3\<rparr> # rest, r)"
  using assms
  by (simp add: Discovery_args_def Let_def seq_Connect after_def split: option.split prod.split)

end
